theory Spec2Isabelle
  imports Complex_Main "HOL-Library.AList"
begin

section \<open>The ALTO bot of server.js: data model\<close>

text \<open>
  The bot keeps three in-memory collections (\<open>this.users\<close>, \<open>this.tasks\<close>,
  \<open>this.config\<close>) and mirrors them to JSON files. A user record carries the two
  flags the message handler branches on (\<open>captchaState.isWaiting\<close>, \<open>inGame\<close>).

  Modelling decisions:
  \<^item> JS strings are \<open>string\<close>; \<open>trim\<close>, \<open>toUpperCase\<close> and \<open>toLowerCase\<close> are
    modelled on ASCII text (the JS functions also treat non-ASCII white space and
    letters).
  \<^item> JS numbers that hold integers are \<open>int\<close>; \<open>NaN\<close> is \<open>None\<close>.
    \<open>Math.random()\<close> is a real number supplied with the event.
  \<^item> \<open>this.users\<close> is an association list (insertion order, as a JS object).
  \<^item> Every inbound message and every timer callback runs as one step of the event loop.
    For a known sender all mutations of \<open>handleMessage\<close> and of the handler it calls
    happen before the first \<open>await\<close>; for a new sender the record is created, written
    and welcomed first, and the model lets the rest of the handler follow at once.
  \<^item> Store writes are taken to succeed. What the runtime does with an uncaught exception
    or rejected promise is outside the model: the log records it and the handler stops.
  \<^item> \<open>setTimeout\<close> hands out fresh positive timer ids from a counter; the delay is
    not modelled, a scheduled timer may run at any later step.
  \<^item> Replies are constructors, one per message template, carrying the values the
    template interpolates; replies, store writes and uncaught exceptions are appended to
    one log \<open>out\<close>, in the order the code issues them.
\<close>

type_synonym userId = string

record task =
  task_id :: int
  bonus :: int
  duration :: int
  description :: string

datatype captchaType = Claim | Task

text \<open>\<open>captchaState\<close>: \<open>{ isWaiting: false }\<close> has no other field; a pending
  challenge has \<open>type\<close>, \<open>answer\<close> and, for a task, \<open>task\<close> and \<open>timerId\<close>.\<close>

record captcha =
  isWaiting :: bool
  ctype :: "captchaType option"
  ctask :: "task option"
  answer :: "string option"
  timerId :: "nat option"

record user =
  balance :: int
  isBlocked :: bool
  lastLogin :: string
  claimedDailyBonus :: bool
  completedTasksToday :: "int list"
  isAdmin :: bool
  captchaState :: captcha
  inGame :: bool
  gameAnswer :: int

record bot_config =
  adminPassword :: string
  dailyBonus_min :: int
  dailyBonus_max :: int

text \<open>A scheduled \<open>setTimeout\<close> callback of \<open>handleSelesai\<close>: its id and the two
  values its closure captures, \<open>message.from\<close> and \<open>taskId\<close>.\<close>

record timer =
  tm_id :: nat
  tm_from :: userId
  tm_taskId :: int

datatype reply =
    Welcome
  | Menu bool
  | Saldo int
  | Owner string
  | ChatCleared
  | AlreadyClaimed
  | ClaimCaptchaPrompt string
  | NoTasksAvailable
  | AvailableTasks "task list"
  | InvalidTaskId
  | TaskNotFound
  | TaskAlreadyDone
  | TaskCaptchaPrompt int string
  | TimeUp
  | CaptchaCorrect
  | TaskReward int int
  | ClaimReward int int
  | CaptchaWrong
  | GameWelcome
  | GameExited
  | GameInvalidNumber
  | GameTooLow
  | GameTooHigh
  | GameWon int int int
  | AdminOnly
  | AdminLoginOk
  | AdminLoginWrong
  | UserList "(userId \<times> int \<times> bool) list"
  | UserBlocked userId
  | UserUnblocked userId
  | UserDeleted userId
  | UserNotFound userId
  | AddTaskUsage
  | TaskAdded int
  | NoTasksYet
  | AllTasks "task list"
  | TaskDeleted int
  | DeleteTaskNotFound
  | SetBonusUsage
  | BonusSet int int
  | ImageUsage
  | ImageWait
  | ImageFailed
  | VideoUsage
  | VideoWait
  | VideoReady string
  | VideoNoLink
  | VideoFailed
  | AiReply string
  | AiError
  | UnknownCommand string

datatype error = TypeError | UpstreamRejected

datatype effect =
    Reply userId reply
  | SendMedia userId string string
  | WriteUsers "(userId \<times> user) list"
  | WriteTasks "task list"
  | WriteConfig bot_config
  | Uncaught error

record bot =
  users :: "(userId \<times> user) list"
  tasks :: "task list"
  config :: bot_config
  userChats :: "userId list"
  timers :: "timer list"
  nextTimerId :: nat
  out :: "effect list"

text \<open>What the outside world supplies with one inbound message: the date string of
  \<open>new Date().toDateString()\<close>, the value of \<open>Math.random()\<close> and its rendering by
  \<open>toString(36)\<close>, and the outcomes of the AI and media back ends.\<close>

datatype ai_result = AiText string | AiFailed
datatype image_result = ImageBytes string | ImageError
datatype video_result = VideoLink string | VideoWithoutLink | VideoError | VideoNeverDone

record env =
  today :: string
  rand :: real
  rand36 :: string
  ai :: ai_result
  image :: image_result
  video :: video_result

record message =
  msg_from :: userId
  body :: string

section \<open>JavaScript string and number helpers\<close>

definition isWhiteSpace :: "char \<Rightarrow> bool" where
  "isWhiteSpace c = (c \<in> set [CHR 0x09, CHR 0x0A, CHR 0x0B, CHR 0x0C, CHR 0x0D, CHR '' ''])"

definition trim :: "string \<Rightarrow> string" where
  "trim s = rev (dropWhile isWhiteSpace (rev (dropWhile isWhiteSpace s)))"

definition upperChar :: "char \<Rightarrow> char" where
  "upperChar c =
     (case map_of (zip ''abcdefghijklmnopqrstuvwxyz'' ''ABCDEFGHIJKLMNOPQRSTUVWXYZ'') c of
        Some d \<Rightarrow> d | None \<Rightarrow> c)"

definition lowerChar :: "char \<Rightarrow> char" where
  "lowerChar c =
     (case map_of (zip ''ABCDEFGHIJKLMNOPQRSTUVWXYZ'' ''abcdefghijklmnopqrstuvwxyz'') c of
        Some d \<Rightarrow> d | None \<Rightarrow> c)"

definition toUpperCase :: "string \<Rightarrow> string" where
  "toUpperCase s = map upperChar s"

definition toLowerCase :: "string \<Rightarrow> string" where
  "toLowerCase s = map lowerChar s"

definition startsWithSlash :: "string \<Rightarrow> bool" where
  "startsWithSlash s = (case s of [] \<Rightarrow> False | c # _ \<Rightarrow> c = CHR ''/'')"

definition endsWith :: "string \<Rightarrow> string \<Rightarrow> bool" where
  "endsWith s suf = (length suf \<le> length s \<and> drop (length s - length suf) s = suf)"

text \<open>\<open>s.split(' ')\<close>: never empty; consecutive blanks give empty pieces.\<close>

fun splitSpace :: "string \<Rightarrow> string list" where
  "splitSpace [] = [[]]"
| "splitSpace (c # cs) =
     (if c = CHR '' '' then [] # splitSpace cs
      else (case splitSpace cs of [] \<Rightarrow> [[c]] | w # ws \<Rightarrow> (c # w) # ws))"

fun joinSpace :: "string list \<Rightarrow> string" where
  "joinSpace [] = []"
| "joinSpace [w] = w"
| "joinSpace (w # ws) = w @ CHR '' '' # joinSpace ws"

text \<open>\<open>xs[i]\<close> on an array: \<open>undefined\<close> (here \<open>None\<close>) out of range.\<close>

fun nth_opt :: "'a list \<Rightarrow> nat \<Rightarrow> 'a option" where
  "nth_opt [] n = None"
| "nth_opt (x # xs) 0 = Some x"
| "nth_opt (x # xs) (Suc n) = nth_opt xs n"

definition digitVal :: "char \<Rightarrow> nat option" where
  "digitVal c = map_of (zip ''0123456789'' [0, 1, 2, 3, 4, 5, 6, 7, 8, 9]) c"

definition hexVal :: "char \<Rightarrow> nat option" where
  "hexVal c = map_of (zip ''0123456789abcdefABCDEF''
     [0, 1, 2, 3, 4, 5, 6, 7, 8, 9, 10, 11, 12, 13, 14, 15, 10, 11, 12, 13, 14, 15]) c"

fun digitsPrefix :: "(char \<Rightarrow> nat option) \<Rightarrow> string \<Rightarrow> nat list" where
  "digitsPrefix dv [] = []"
| "digitsPrefix dv (c # cs) = (case dv c of None \<Rightarrow> [] | Some d \<Rightarrow> d # digitsPrefix dv cs)"

definition fromDigits :: "int \<Rightarrow> nat list \<Rightarrow> int" where
  "fromDigits r ds = foldl (\<lambda>acc d. acc * r + int d) 0 ds"

text \<open>\<open>parseInt(s)\<close> without a radix: leading white space is skipped, then an optional
  sign, then an optional \<open>0x\<close>/\<open>0X\<close> prefix selecting radix 16, then the longest run
  of digits; no digit gives \<open>NaN\<close>. (The JS result is a double; the model keeps the
  exact integer.)\<close>

definition parseInt :: "string \<Rightarrow> int option" where
  "parseInt s =
     (let s1 = dropWhile isWhiteSpace s;
          sgn_rest = (case s1 of
                        [] \<Rightarrow> (1, s1)
                      | c # r \<Rightarrow> if c = CHR ''-'' then (- 1, r)
                                else if c = CHR ''+'' then (1, r) else (1, s1));
          s2 = snd sgn_rest;
          hex = (case s2 of
                   a # b # r \<Rightarrow> a = CHR ''0'' \<and> (b = CHR ''x'' \<or> b = CHR ''X'')
                 | _ \<Rightarrow> False);
          ds = (if hex then digitsPrefix hexVal (drop 2 s2) else digitsPrefix digitVal s2)
      in if ds = [] then None
         else Some (fst sgn_rest * fromDigits (if hex then 16 else 10) ds))"

text \<open>\<open>parseInt\<close> of an argument that may be \<open>undefined\<close>: \<open>parseInt(undefined)\<close>
  parses the text "undefined" and is \<open>NaN\<close>.\<close>

definition parseIntArg :: "string option \<Rightarrow> int option" where
  "parseIntArg a = (case a of None \<Rightarrow> None | Some s \<Rightarrow> parseInt s)"

text \<open>\<open>Math.max(...xs)\<close> on a non-empty array of integers.\<close>

fun maxList :: "int list \<Rightarrow> int" where
  "maxList [] = 0"
| "maxList [x] = x"
| "maxList (x # xs) = max x (maxList xs)"

text \<open>\<open>xs.splice(xs.findIndex(p), 1)\<close> when the index is not \<open>-1\<close>.\<close>

fun removeFirst :: "('a \<Rightarrow> bool) \<Rightarrow> 'a list \<Rightarrow> 'a list" where
  "removeFirst p [] = []"
| "removeFirst p (x # xs) = (if p x then xs else x # removeFirst p xs)"

section \<open>Effects\<close>

definition ownerNumber :: string where
  "ownerNumber = ''6285813899649''"

definition reply :: "message \<Rightarrow> reply \<Rightarrow> bot \<Rightarrow> bot" where
  "reply m r st = st\<lparr>out := out st @ [Reply (msg_from m) r]\<rparr>"

definition writeUsers :: "bot \<Rightarrow> bot" where
  "writeUsers st = st\<lparr>out := out st @ [WriteUsers (users st)]\<rparr>"

definition writeTasks :: "bot \<Rightarrow> bot" where
  "writeTasks st = st\<lparr>out := out st @ [WriteTasks (tasks st)]\<rparr>"

definition writeConfig :: "bot \<Rightarrow> bot" where
  "writeConfig st = st\<lparr>out := out st @ [WriteConfig (config st)]\<rparr>"

definition uncaught :: "error \<Rightarrow> bot \<Rightarrow> bot" where
  "uncaught e st = st\<lparr>out := out st @ [Uncaught e]\<rparr>"

text \<open>A mutation through the reference \<open>user\<close> (or \<open>this.users[id]\<close>): the record
  stored under the key changes in place; a key that has been deleted stays deleted.\<close>

definition modUser :: "userId \<Rightarrow> (user \<Rightarrow> user) \<Rightarrow> bot \<Rightarrow> bot" where
  "modUser uid f st = st\<lparr>users := AList.map_entry uid f (users st)\<rparr>"

definition setTimeout :: "userId \<Rightarrow> int \<Rightarrow> bot \<Rightarrow> bot" where
  "setTimeout uid taskId st =
     st\<lparr>timers := timers st @ [\<lparr>tm_id = nextTimerId st, tm_from = uid, tm_taskId = taskId\<rparr>],
        nextTimerId := nextTimerId st + 1\<rparr>"

definition clearTimeout :: "nat \<Rightarrow> bot \<Rightarrow> bot" where
  "clearTimeout t st = st\<lparr>timers := filter (\<lambda>x. tm_id x \<noteq> t) (timers st)\<rparr>"

definition noCaptcha :: captcha where
  "noCaptcha = \<lparr>isWaiting = False, ctype = None, ctask = None, answer = None, timerId = None\<rparr>"

definition newUser :: "string \<Rightarrow> user" where
  "newUser d =
     \<lparr>balance = 0, isBlocked = False, lastLogin = d, claimedDailyBonus = False,
      completedTasksToday = [], isAdmin = False, captchaState = noCaptcha,
      inGame = False, gameAnswer = 0\<rparr>"

section \<open>Handlers\<close>

definition showMenu :: "message \<Rightarrow> user \<Rightarrow> bot \<Rightarrow> bot" where
  "showMenu m u st = reply m (Menu (isAdmin u)) st"

definition startGame :: "message \<Rightarrow> userId \<Rightarrow> env \<Rightarrow> bot \<Rightarrow> bot" where
  "startGame m uid e st =
     reply m GameWelcome
       (writeUsers
         (modUser uid (\<lambda>u. u\<lparr>inGame := True, gameAnswer := \<lfloor>rand e * 100\<rfloor> + 1\<rparr>) st))"

definition gameReward :: int where
  "gameReward = 250"

definition handleGameInput :: "message \<Rightarrow> userId \<Rightarrow> user \<Rightarrow> string \<Rightarrow> bot \<Rightarrow> bot" where
  "handleGameInput m uid u input st =
     (if trim (toLowerCase input) = ''/exitgame'' then
        showMenu m u
          (reply m GameExited (writeUsers (modUser uid (\<lambda>v. v\<lparr>inGame := False\<rparr>) st)))
      else
        (case parseInt input of
           None \<Rightarrow> reply m GameInvalidNumber st
         | Some guess \<Rightarrow>
             if guess < gameAnswer u then reply m GameTooLow st
             else if guess > gameAnswer u then reply m GameTooHigh st
             else
               showMenu m u
                 (reply m (GameWon (gameAnswer u) gameReward (balance u + gameReward))
                   (writeUsers
                     (modUser uid
                       (\<lambda>v. v\<lparr>balance := balance v + gameReward, inGame := False\<rparr>) st)))))"

text \<open>\<open>Math.random().toString(36).substring(2, 2 + 6).toUpperCase()\<close>, from the
  base-36 rendering of the drawn number.\<close>

definition generateCaptcha :: "string \<Rightarrow> string" where
  "generateCaptcha r36 = toUpperCase (take 6 (drop 2 r36))"

definition handleClaim :: "message \<Rightarrow> userId \<Rightarrow> user \<Rightarrow> env \<Rightarrow> bot \<Rightarrow> bot" where
  "handleClaim m uid u e st =
     (if claimedDailyBonus u then reply m AlreadyClaimed st
      else
        (let captchaText = generateCaptcha (rand36 e) in
         reply m (ClaimCaptchaPrompt captchaText)
           (writeUsers
             (modUser uid
               (\<lambda>v. v\<lparr>captchaState :=
                  \<lparr>isWaiting = True, ctype = Some Claim, ctask = None,
                   answer = Some captchaText, timerId = None\<rparr>\<rparr>) st))))"

definition handleListAvailableTasks :: "message \<Rightarrow> user \<Rightarrow> bot \<Rightarrow> bot" where
  "handleListAvailableTasks m u st =
     (let availableTasks = filter (\<lambda>t. task_id t \<notin> set (completedTasksToday u)) (tasks st) in
      if length availableTasks = 0 then reply m NoTasksAvailable st
      else reply m (AvailableTasks availableTasks) st)"

definition handleSelesai ::
  "message \<Rightarrow> userId \<Rightarrow> user \<Rightarrow> string option \<Rightarrow> env \<Rightarrow> bot \<Rightarrow> bot" where
  "handleSelesai m uid u taskIdStr e st =
     (case parseIntArg taskIdStr of
        None \<Rightarrow> reply m InvalidTaskId st
      | Some taskId \<Rightarrow>
          (case List.find (\<lambda>t. task_id t = taskId) (tasks st) of
             None \<Rightarrow> reply m TaskNotFound st
           | Some tk \<Rightarrow>
               if taskId \<in> set (completedTasksToday u) then reply m TaskAlreadyDone st
               else
                 (let captchaText = generateCaptcha (rand36 e);
                      tmr = nextTimerId st
                  in reply m (TaskCaptchaPrompt (duration tk) captchaText)
                       (writeUsers
                         (modUser uid
                           (\<lambda>v. v\<lparr>captchaState :=
                              \<lparr>isWaiting = True, ctype = Some Task, ctask = Some tk,
                               answer = Some captchaText, timerId = Some tmr\<rparr>\<rparr>)
                           (setTimeout (msg_from m) taskId st))))))"

text \<open>The callback \<open>handleSelesai\<close> hands to \<open>setTimeout\<close>.\<close>

definition timeoutGuard :: "userId \<Rightarrow> int \<Rightarrow> bot \<Rightarrow> bool" where
  "timeoutGuard uid taskId st =
     (case map_of (users st) uid of
        None \<Rightarrow> False
      | Some cu \<Rightarrow> isWaiting (captchaState cu)
                 \<and> map_option task_id (ctask (captchaState cu)) = Some taskId)"

definition timeoutCallback :: "userId \<Rightarrow> int \<Rightarrow> bot \<Rightarrow> bot" where
  "timeoutCallback uid taskId st =
     (if timeoutGuard uid taskId st then
        (let st1 = writeUsers (modUser uid (\<lambda>v. v\<lparr>captchaState := noCaptcha\<rparr>) st)
         in st1\<lparr>out := out st1 @ [Reply uid TimeUp]\<rparr>)
      else st)"

text \<open>The event loop runs a timer that is still scheduled; a cleared or already fired
  timer never runs.\<close>

definition fireTimer :: "nat \<Rightarrow> bot \<Rightarrow> bot" where
  "fireTimer t st =
     (case List.find (\<lambda>x. tm_id x = t) (timers st) of
        None \<Rightarrow> st
      | Some x \<Rightarrow> timeoutCallback (tm_from x) (tm_taskId x) (clearTimeout t st))"

definition claimReward :: "bot_config \<Rightarrow> real \<Rightarrow> int" where
  "claimReward c r =
     \<lfloor>r * real_of_int (dailyBonus_max c - dailyBonus_min c + 1)\<rfloor> + dailyBonus_min c"

definition captchaMatches :: "string \<Rightarrow> captcha \<Rightarrow> bool" where
  "captchaMatches userInput cs = (Some (toUpperCase (trim userInput)) = answer cs)"

definition verifyCaptcha :: "message \<Rightarrow> userId \<Rightarrow> user \<Rightarrow> string \<Rightarrow> env \<Rightarrow> bot \<Rightarrow> bot" where
  "verifyCaptcha m uid u userInput e st =
     (let cs = captchaState u;
          st1 = (case timerId cs of
                   None \<Rightarrow> st
                 | Some t \<Rightarrow> if t \<noteq> 0 then clearTimeout t st else st);
          st2 = modUser uid (\<lambda>v. v\<lparr>captchaState := noCaptcha\<rparr>) st1
      in if captchaMatches userInput cs then
           (let st3 = reply m CaptchaCorrect st2 in
            if ctype cs = Some Task then
              (case ctask cs of
                 None \<Rightarrow> uncaught TypeError st3
               | Some tk \<Rightarrow>
                   showMenu m u
                     (writeUsers
                       (reply m (TaskReward (bonus tk) (balance u + bonus tk))
                         (writeUsers
                           (modUser uid
                             (\<lambda>v. v\<lparr>balance := balance v + bonus tk,
                                    completedTasksToday := completedTasksToday v @ [task_id tk]\<rparr>)
                             st3)))))
            else if ctype cs = Some Claim then
              (let reward = claimReward (config st) (rand e) in
               showMenu m u
                 (writeUsers
                   (reply m (ClaimReward reward (balance u + reward))
                     (writeUsers
                       (modUser uid
                         (\<lambda>v. v\<lparr>balance := balance v + reward, claimedDailyBonus := True\<rparr>)
                         st3)))))
            else showMenu m u (writeUsers st3))
         else showMenu m u (writeUsers (reply m CaptchaWrong st2)))"

subsection \<open>Admin commands\<close>

definition handleLoginAdmin :: "message \<Rightarrow> userId \<Rightarrow> string option \<Rightarrow> bot \<Rightarrow> bot" where
  "handleLoginAdmin m uid password st =
     (if password = Some (adminPassword (config st)) then
        reply m AdminLoginOk (writeUsers (modUser uid (\<lambda>v. v\<lparr>isAdmin := True\<rparr>) st))
      else reply m AdminLoginWrong st)"

definition handleListUsers :: "message \<Rightarrow> user \<Rightarrow> bot \<Rightarrow> bot" where
  "handleListUsers m u st =
     (if \<not> isAdmin u then reply m AdminOnly st
      else reply m (UserList (map (\<lambda>(i, v). (i, balance v, isBlocked v)) (users st))) st)"

definition targetOf :: "string \<Rightarrow> userId" where
  "targetOf a = (if endsWith a ''@c.us'' then a else a @ ''@c.us'')"

definition handleBlockUser :: "message \<Rightarrow> user \<Rightarrow> string option \<Rightarrow> bot \<Rightarrow> bot" where
  "handleBlockUser m u arg st =
     (if \<not> isAdmin u then reply m AdminOnly st
      else
        (case arg of
           None \<Rightarrow> uncaught TypeError st
         | Some a \<Rightarrow>
             (let targetId = targetOf a in
              if map_of (users st) targetId \<noteq> None then
                reply m (UserBlocked targetId)
                  (writeUsers (modUser targetId (\<lambda>v. v\<lparr>isBlocked := True\<rparr>) st))
              else reply m (UserNotFound targetId) st)))"

definition handleUnblockUser :: "message \<Rightarrow> user \<Rightarrow> string option \<Rightarrow> bot \<Rightarrow> bot" where
  "handleUnblockUser m u arg st =
     (if \<not> isAdmin u then reply m AdminOnly st
      else
        (case arg of
           None \<Rightarrow> uncaught TypeError st
         | Some a \<Rightarrow>
             (let targetId = targetOf a in
              if map_of (users st) targetId \<noteq> None then
                reply m (UserUnblocked targetId)
                  (writeUsers (modUser targetId (\<lambda>v. v\<lparr>isBlocked := False\<rparr>) st))
              else reply m (UserNotFound targetId) st)))"

definition handleDeleteUser :: "message \<Rightarrow> user \<Rightarrow> string option \<Rightarrow> bot \<Rightarrow> bot" where
  "handleDeleteUser m u arg st =
     (if \<not> isAdmin u then reply m AdminOnly st
      else
        (case arg of
           None \<Rightarrow> uncaught TypeError st
         | Some a \<Rightarrow>
             (let targetId = targetOf a in
              if map_of (users st) targetId \<noteq> None then
                reply m (UserDeleted targetId)
                  (writeUsers (st\<lparr>users := AList.delete targetId (users st)\<rparr>))
              else reply m (UserNotFound targetId) st)))"

definition newTaskId :: "task list \<Rightarrow> int" where
  "newTaskId ts = (if length ts > 0 then maxList (map task_id ts) + 1 else 1)"

definition handleAddTugas ::
  "message \<Rightarrow> user \<Rightarrow> string option \<Rightarrow> string option \<Rightarrow> string \<Rightarrow> bot \<Rightarrow> bot" where
  "handleAddTugas m u bonusStr durationStr desc st =
     (if \<not> isAdmin u then reply m AdminOnly st
      else
        (case (parseIntArg bonusStr, parseIntArg durationStr) of
           (Some b, Some d) \<Rightarrow>
             if desc = [] \<or> d \<le> 0 then reply m AddTaskUsage st
             else
               (let newId = newTaskId (tasks st) in
                reply m (TaskAdded newId)
                  (writeTasks
                    (st\<lparr>tasks := tasks st @
                       [\<lparr>task_id = newId, bonus = b, duration = d, description = desc\<rparr>]\<rparr>)))
         | _ \<Rightarrow> reply m AddTaskUsage st))"

definition handleListAllTasks :: "message \<Rightarrow> user \<Rightarrow> bot \<Rightarrow> bot" where
  "handleListAllTasks m u st =
     (if \<not> isAdmin u then reply m AdminOnly st
      else if length (tasks st) = 0 then reply m NoTasksYet st
      else reply m (AllTasks (tasks st)) st)"

definition handleDeleteTask :: "message \<Rightarrow> user \<Rightarrow> string option \<Rightarrow> bot \<Rightarrow> bot" where
  "handleDeleteTask m u taskIdStr st =
     (if \<not> isAdmin u then reply m AdminOnly st
      else
        (case parseIntArg taskIdStr of
           None \<Rightarrow> reply m DeleteTaskNotFound st
         | Some taskId \<Rightarrow>
             if \<exists>t \<in> set (tasks st). task_id t = taskId then
               reply m (TaskDeleted taskId)
                 (writeTasks (st\<lparr>tasks := removeFirst (\<lambda>t. task_id t = taskId) (tasks st)\<rparr>))
             else reply m DeleteTaskNotFound st))"

definition handleSetBonus :: "message \<Rightarrow> user \<Rightarrow> string option \<Rightarrow> string option \<Rightarrow> bot \<Rightarrow> bot" where
  "handleSetBonus m u minStr maxStr st =
     (if \<not> isAdmin u then reply m AdminOnly st
      else
        (case (parseIntArg minStr, parseIntArg maxStr) of
           (Some mn, Some mx) \<Rightarrow>
             if mn > mx then reply m SetBonusUsage st
             else
               reply m (BonusSet mn mx)
                 (writeConfig
                   (st\<lparr>config := (config st)\<lparr>dailyBonus_min := mn, dailyBonus_max := mx\<rparr>\<rparr>))
         | _ \<Rightarrow> reply m SetBonusUsage st))"

subsection \<open>Media and AI collaborators\<close>

definition handleImageGeneration :: "message \<Rightarrow> string \<Rightarrow> env \<Rightarrow> bot \<Rightarrow> bot" where
  "handleImageGeneration m prompt e st =
     (if prompt = [] then reply m ImageUsage st
      else
        (let st1 = reply m ImageWait st in
         case image e of
           ImageBytes b \<Rightarrow> st1\<lparr>out := out st1 @ [SendMedia (msg_from m) b prompt]\<rparr>
         | ImageError \<Rightarrow> reply m ImageFailed st1))"

definition handleVideoGeneration :: "message \<Rightarrow> string \<Rightarrow> env \<Rightarrow> bot \<Rightarrow> bot" where
  "handleVideoGeneration m prompt e st =
     (if prompt = [] then reply m VideoUsage st
      else
        (let st1 = reply m VideoWait st in
         case video e of
           VideoLink l \<Rightarrow> reply m (VideoReady l) st1
         | VideoWithoutLink \<Rightarrow> reply m VideoNoLink st1
         | VideoError \<Rightarrow> reply m VideoFailed st1
         | VideoNeverDone \<Rightarrow> st1))"

definition getAiResponse :: "message \<Rightarrow> env \<Rightarrow> bot \<Rightarrow> bot" where
  "getAiResponse m e st =
     (let st1 = (if msg_from m \<in> set (userChats st) then st
                 else st\<lparr>userChats := userChats st @ [msg_from m]\<rparr>)
      in case ai e of
           AiText t \<Rightarrow> reply m (AiReply (trim t)) st1
         | AiFailed \<Rightarrow> reply m AiError st1)"

subsection \<open>The message handler\<close>

text \<open>\<open>command\<close>, \<open>args\<close> and \<open>commandName\<close> of \<open>handleMessage\<close>.\<close>

definition commandOf :: "string \<Rightarrow> string" where
  "commandOf b = trim (toLowerCase b)"

definition argsOf :: "string \<Rightarrow> string list" where
  "argsOf b = drop 1 (splitSpace (trim b))"

definition commandNameOf :: "string \<Rightarrow> string" where
  "commandNameOf b = (case splitSpace (commandOf b) of [] \<Rightarrow> [] | w # _ \<Rightarrow> w)"

definition dispatch :: "message \<Rightarrow> userId \<Rightarrow> user \<Rightarrow> env \<Rightarrow> bot \<Rightarrow> bot" where
  "dispatch m uid u e st =
     (let command = commandOf (body m);
          args = argsOf (body m);
          commandName = commandNameOf (body m)
      in if \<not> startsWithSlash command then getAiResponse m e st
         else if commandName = ''/menu'' then showMenu m u st
         else if commandName = ''/saldo'' then reply m (Saldo (balance u)) st
         else if commandName = ''/owner'' then reply m (Owner ownerNumber) st
         else if commandName = ''/klaim'' then handleClaim m uid u e st
         else if commandName = ''/tugas'' then handleListAvailableTasks m u st
         else if commandName = ''/selesai'' then handleSelesai m uid u (nth_opt args 0) e st
         else if commandName = ''/gambar'' then handleImageGeneration m (joinSpace args) e st
         else if commandName = ''/video'' then handleVideoGeneration m (joinSpace args) e st
         else if commandName = ''/game'' then startGame m uid e st
         else if commandName = ''/loginadmin'' then handleLoginAdmin m uid (nth_opt args 0) st
         else if commandName = ''/clear'' then
           reply m ChatCleared (st\<lparr>userChats := removeAll uid (userChats st)\<rparr>)
         else if commandName = ''/listusers'' then handleListUsers m u st
         else if commandName = ''/blockuser'' then handleBlockUser m u (nth_opt args 0) st
         else if commandName = ''/unblockuser'' then handleUnblockUser m u (nth_opt args 0) st
         else if commandName = ''/deleteuser'' then handleDeleteUser m u (nth_opt args 0) st
         else if commandName = ''/addtugas'' then
           handleAddTugas m u (nth_opt args 0) (nth_opt args 1) (joinSpace (drop 2 args)) st
         else if commandName = ''/listtugas'' then handleListAllTasks m u st
         else if commandName = ''/hapustugas'' then handleDeleteTask m u (nth_opt args 0) st
         else if commandName = ''/setbonus'' then
           handleSetBonus m u (nth_opt args 0) (nth_opt args 1) st
         else
           (case ai e of
              AiText t \<Rightarrow> reply m (UnknownCommand t) st
            | AiFailed \<Rightarrow> uncaught UpstreamRejected st))"

text \<open>The daily reset at the top of \<open>handleMessage\<close>.\<close>

definition dailyReset :: "string \<Rightarrow> user \<Rightarrow> user" where
  "dailyReset d u =
     (if lastLogin u \<noteq> d
      then u\<lparr>lastLogin := d, claimedDailyBonus := False, completedTasksToday := []\<rparr>
      else u)"

text \<open>Everything after the \<open>isBlocked\<close> test, for the (existing) record \<open>u\<close>.\<close>

definition handleActive :: "message \<Rightarrow> user \<Rightarrow> env \<Rightarrow> bot \<Rightarrow> bot" where
  "handleActive m u e st =
     (let uid = msg_from m;
          u1 = dailyReset (today e) u;
          st1 = modUser uid (dailyReset (today e)) st
      in if isWaiting (captchaState u1) then verifyCaptcha m uid u1 (body m) e st1
         else if inGame u1 then handleGameInput m uid u1 (body m) st1
         else dispatch m uid u1 e st1)"

definition handleMessage :: "env \<Rightarrow> message \<Rightarrow> bot \<Rightarrow> bot" where
  "handleMessage e m st =
     (case map_of (users st) (msg_from m) of
        None \<Rightarrow>
          (let u = newUser (today e);
               st1 = reply m Welcome
                       (writeUsers (st\<lparr>users := AList.update (msg_from m) u (users st)\<rparr>))
           in if isBlocked u then st1 else handleActive m u e st1)
      | Some u \<Rightarrow> if isBlocked u then st else handleActive m u e st)"

section \<open>Runs of the bot\<close>

text \<open>A fresh process: no user yet, the task catalog and the configuration as loaded,
  no timer scheduled.\<close>

definition initial :: "bot_config \<Rightarrow> task list \<Rightarrow> bot" where
  "initial c ts =
     \<lparr>users = [], tasks = ts, config = c, userChats = [], timers = [], nextTimerId = 1,
      out = []\<rparr>"

text \<open>The event loop delivers inbound messages and runs scheduled timers, in any order;
  \<open>Math.random()\<close> lies in \<open>[0, 1)\<close>.\<close>

inductive reachable :: "bot \<Rightarrow> bool" where
  start: "reachable (initial c ts)"
| message: "reachable st \<Longrightarrow> 0 \<le> rand e \<Longrightarrow> rand e < 1 \<Longrightarrow> reachable (handleMessage e m st)"
| timeout: "reachable st \<Longrightarrow> reachable (fireTimer t st)"

section \<open>The session state of a user\<close>

text \<open>The three modes, read off the two flags in the order \<open>handleMessage\<close> tests
  them.\<close>

datatype mode = Idle | AwaitingVerification | InGame

definition mode :: "user \<Rightarrow> mode" where
  "mode u = (if isWaiting (captchaState u) then AwaitingVerification
             else if inGame u then InGame else Idle)"

text \<open>The pending challenge is the payload of \<open>captchaState\<close>: its \<open>type\<close> and
  \<open>answer\<close> with, for a task, the task and the timer id.\<close>

definition pendingChallenge ::
  "user \<Rightarrow> (captchaType \<times> string \<times> task option \<times> nat option) option" where
  "pendingChallenge u =
     (case (ctype (captchaState u), answer (captchaState u)) of
        (Some ty, Some a) \<Rightarrow> Some (ty, a, ctask (captchaState u), timerId (captchaState u))
      | _ \<Rightarrow> None)"

text \<open>The game target is the field \<open>gameAnswer\<close>: \<open>0\<close> in a new record (no target),
  a number from 1 to 100 once a game has been started.\<close>

definition gameTarget :: "user \<Rightarrow> int option" where
  "gameTarget u =
     (if 1 \<le> gameAnswer u \<and> gameAnswer u \<le> 100 then Some (gameAnswer u) else None)"

text \<open>What holds of every record the handlers produce.\<close>

definition userInv :: "user \<Rightarrow> bool" where
  "userInv u =
     ((isWaiting (captchaState u) = (answer (captchaState u) \<noteq> None)) \<and>
      (isWaiting (captchaState u) = (ctype (captchaState u) \<noteq> None)) \<and>
      ((ctype (captchaState u) = Some Task) = (ctask (captchaState u) \<noteq> None)) \<and>
      ((ctype (captchaState u) = Some Task) = (timerId (captchaState u) \<noteq> None)) \<and>
      (\<forall>t. timerId (captchaState u) = Some t \<longrightarrow> 0 < t) \<and>
      (\<forall>a. answer (captchaState u) = Some a \<longrightarrow> toUpperCase a = a) \<and>
      \<not> (isWaiting (captchaState u) \<and> inGame u) \<and>
      (inGame u \<longrightarrow> 1 \<le> gameAnswer u \<and> gameAnswer u \<le> 100))"

definition botInv :: "bot \<Rightarrow> bool" where
  "botInv st =
     ((\<forall>uid u. map_of (users st) uid = Some u \<longrightarrow> userInv u) \<and> 0 < nextTimerId st)"

section \<open>Example data\<close>

definition ex_env :: env where
  "ex_env = \<lparr>today = ''Mon Nov 02 2026'', rand = 1 / 2, rand36 = ''0.k3xq9zt1'',
             ai = AiText ''halo'', image = ImageError, video = VideoError\<rparr>"

definition ex_config :: bot_config where
  "ex_config = \<lparr>adminPassword = ''admin123'', dailyBonus_min = 100, dailyBonus_max = 500\<rparr>"

definition ex_blocked_user :: user where
  "ex_blocked_user =
     \<lparr>balance = 40, isBlocked = True, lastLogin = ''Sun Nov 01 2026'',
      claimedDailyBonus = True, completedTasksToday = [1], isAdmin = False,
      captchaState = noCaptcha, inGame = False, gameAnswer = 0\<rparr>"

definition ex_blocked_bot :: bot where
  "ex_blocked_bot =
     \<lparr>users = [(''mallory'', ex_blocked_user)], tasks = [], config = ex_config,
      userChats = [], timers = [], nextTimerId = 1, out = []\<rparr>"

definition ex_alice :: "string \<Rightarrow> message" where
  "ex_alice b = \<lparr>msg_from = ''alice'', body = b\<rparr>"

definition ex_in_game :: bot where
  "ex_in_game = handleMessage ex_env (ex_alice ''/game'') (initial ex_config [])"

definition ex_after_game :: bot where
  "ex_after_game = handleMessage ex_env (ex_alice ''/exitgame'') ex_in_game"

text \<open>The ledger fields of a record with the date they belong to, and states whose
  records agree on them.\<close>

definition sameLedger :: "user \<Rightarrow> user \<Rightarrow> bool" where
  "sameLedger u u' =
     (balance u' = balance u \<and> claimedDailyBonus u' = claimedDailyBonus u
      \<and> completedTasksToday u' = completedTasksToday u \<and> lastLogin u' = lastLogin u)"

definition ledgerStable :: "bot \<Rightarrow> bot \<Rightarrow> bool" where
  "ledgerStable st st' =
     (\<forall>k u'. map_of (users st') k = Some u' \<longrightarrow>
        (\<exists>v. map_of (users st) k = Some v \<and> sameLedger v u'))"

definition ex_task :: task where
  "ex_task = \<lparr>task_id = 1, bonus = 150, duration = 5, description = ''Jawab pertanyaan AI''\<rparr>"

definition ex_claim_pending :: bot where
  "ex_claim_pending = handleMessage ex_env (ex_alice ''/klaim'') (initial ex_config [ex_task])"

definition ex_claim_user :: user where
  "ex_claim_user =
     (newUser ''Mon Nov 02 2026'')\<lparr>captchaState :=
        \<lparr>isWaiting = True, ctype = Some Claim, ctask = None, answer = Some ''K3XQ9Z'',
         timerId = None\<rparr>\<rparr>"

definition ex_task_pending :: bot where
  "ex_task_pending =
     handleMessage ex_env (ex_alice ''/selesai 1'') (initial ex_config [ex_task])"

definition ex_task_user :: user where
  "ex_task_user =
     (newUser ''Mon Nov 02 2026'')\<lparr>captchaState :=
        \<lparr>isWaiting = True, ctype = Some Task, ctask = Some ex_task, answer = Some ''K3XQ9Z'',
         timerId = Some 1\<rparr>\<rparr>"

definition ex_claimed_user :: user where
  "ex_claimed_user = (newUser ''Mon Nov 02 2026'')\<lparr>balance := 300, claimedDailyBonus := True\<rparr>"

definition ex_claimed :: bot where
  "ex_claimed = handleMessage ex_env (ex_alice '' k3xq9z '') ex_claim_pending"

definition ex_stale_user :: user where
  "ex_stale_user =
     \<lparr>balance = 300, isBlocked = False, lastLogin = ''Sun Nov 01 2026'',
      claimedDailyBonus = True, completedTasksToday = [1], isAdmin = False,
      captchaState = noCaptcha, inGame = False, gameAnswer = 0\<rparr>"

definition ex_stale_bot :: bot where
  "ex_stale_bot =
     \<lparr>users = [(''alice'', ex_stale_user)], tasks = [ex_task], config = ex_config,
      userChats = [], timers = [], nextTimerId = 1, out = []\<rparr>"


definition ex_admin :: "string \<Rightarrow> message" where
  "ex_admin b = \<lparr>msg_from = ''root'', body = b\<rparr>"

definition ex_admin_user :: user where
  "ex_admin_user = (newUser ''Mon Nov 02 2026'')\<lparr>isAdmin := True\<rparr>"





section \<open>The invariant of reachable states\<close>

lemmas effs = reply_def writeUsers_def writeTasks_def writeConfig_def uncaught_def showMenu_def

lemma map_of_modUser:
  "map_of (users (modUser uid f st)) k =
     (if k = uid then map_option f (map_of (users st) uid) else map_of (users st) k)"
  by (simp add: modUser_def map_of_map_entry split: option.splits)

lemma modUser_fields [simp]:
  "tasks (modUser uid f st) = tasks st" "config (modUser uid f st) = config st"
  "timers (modUser uid f st) = timers st" "nextTimerId (modUser uid f st) = nextTimerId st"
  "out (modUser uid f st) = out st" "userChats (modUser uid f st) = userChats st"
  by (simp_all add: modUser_def)

lemma botInv_out [simp]: "botInv (st\<lparr>out := x\<rparr>) = botInv st"
  and botInv_timers [simp]: "botInv (st\<lparr>timers := y\<rparr>) = botInv st"
  and botInv_tasks [simp]: "botInv (st\<lparr>tasks := z\<rparr>) = botInv st"
  and botInv_config [simp]: "botInv (st\<lparr>config := c\<rparr>) = botInv st"
  and botInv_chats [simp]: "botInv (st\<lparr>userChats := w\<rparr>) = botInv st"
  by (simp_all add: botInv_def)

lemma botInv_effs [simp]:
  "botInv (reply m r st) = botInv st" "botInv (writeUsers st) = botInv st"
  "botInv (writeTasks st) = botInv st" "botInv (writeConfig st) = botInv st"
  "botInv (uncaught er st) = botInv st" "botInv (showMenu m u st) = botInv st"
  "botInv (clearTimeout t st) = botInv st"
  by (simp_all add: effs clearTimeout_def)

lemma botInv_modUser:
  assumes "botInv st" and "\<And>u. map_of (users st) uid = Some u \<Longrightarrow> userInv u \<Longrightarrow> userInv (f u)"
  shows "botInv (modUser uid f st)"
  using assms by (auto simp: botInv_def map_of_modUser split: if_splits)

lemma upperChar_idem: "upperChar (upperChar c) = upperChar c"
  by (simp add: upperChar_def split: if_splits)

lemma toUpperCase_idem: "toUpperCase (toUpperCase s) = toUpperCase s"
  by (simp add: toUpperCase_def upperChar_idem)

lemma generateCaptcha_upper: "toUpperCase (generateCaptcha r) = generateCaptcha r"
  by (simp add: generateCaptcha_def toUpperCase_idem)

lemma userInv_dailyReset [simp]: "userInv (dailyReset d u) = userInv u"
  by (simp add: dailyReset_def userInv_def)

lemma game_target_range:
  assumes "0 \<le> r" and "r < 1"
  shows "1 \<le> \<lfloor>r * 100\<rfloor> + 1 \<and> \<lfloor>r * 100\<rfloor> + 1 \<le> (100::int)"
proof -
  have "0 \<le> r * 100" using assms by simp
  then have a: "0 \<le> \<lfloor>r * 100\<rfloor>" by simp
  have "r * 100 < 100" using assms by simp
  then have "\<lfloor>r * 100\<rfloor> < 100" by (simp add: floor_less_iff)
  with a show ?thesis by simp
qed

lemma botInv_startGame:
  assumes "botInv st" and "map_of (users st) uid = Some u" and "\<not> isWaiting (captchaState u)"
    and "0 \<le> rand e" and "rand e < 1"
  shows "botInv (startGame m uid e st)"
  unfolding startGame_def using assms game_target_range [of "rand e"]
  by (auto intro!: botInv_modUser simp: userInv_def)

lemma botInv_handleGameInput:
  assumes "botInv st"
  shows "botInv (handleGameInput m uid u input st)"
  unfolding handleGameInput_def using assms
  by (auto intro!: botInv_modUser simp: userInv_def split: option.splits)

lemma botInv_handleClaim:
  assumes "botInv st" and "map_of (users st) uid = Some u" and "\<not> inGame u"
  shows "botInv (handleClaim m uid u e st)"
  unfolding handleClaim_def using assms
  by (auto intro!: botInv_modUser simp: userInv_def Let_def generateCaptcha_upper)

lemma botInv_setTimeout: "botInv st \<Longrightarrow> botInv (setTimeout a b st)"
  by (simp add: botInv_def setTimeout_def)

lemma setTimeout_users [simp]: "users (setTimeout a b st) = users st"
  by (simp add: setTimeout_def)

lemma botInv_handleSelesai:
  assumes "botInv st" and "map_of (users st) uid = Some u" and "\<not> inGame u"
  shows "botInv (handleSelesai m uid u a e st)"
proof -
  have pos: "0 < nextTimerId st" using assms(1) by (simp add: botInv_def)
  show ?thesis
    unfolding handleSelesai_def using assms pos
    by (auto intro!: botInv_modUser botInv_setTimeout
             simp: userInv_def Let_def generateCaptcha_upper split: option.splits)
qed

lemma userInv_noCaptcha: "userInv u \<Longrightarrow> userInv (u\<lparr>captchaState := noCaptcha\<rparr>)"
  by (simp add: userInv_def noCaptcha_def)

lemma botInv_timeoutCallback: "botInv st \<Longrightarrow> botInv (timeoutCallback uid t st)"
  unfolding timeoutCallback_def
  by (auto intro!: botInv_modUser userInv_noCaptcha simp: Let_def)

lemma botInv_fireTimer: "botInv st \<Longrightarrow> botInv (fireTimer t st)"
  unfolding fireTimer_def
  by (auto intro!: botInv_timeoutCallback split: option.splits)

lemma botInv_verifyCaptcha:
  assumes "botInv st"
  shows "botInv (verifyCaptcha m uid u input e st)"
proof -
  have a: "botInv (modUser uid (\<lambda>v. v\<lparr>captchaState := noCaptcha\<rparr>) s)" if "botInv s" for s
    using that by (auto intro!: botInv_modUser userInv_noCaptcha)
  have b: "botInv (modUser uid f (reply m r (modUser uid (\<lambda>v. v\<lparr>captchaState := noCaptcha\<rparr>) s)))"
    if "botInv s" and "\<And>v. userInv v \<Longrightarrow> userInv (f v)" for s f r
    using that a by (auto intro!: botInv_modUser)
  show ?thesis
    unfolding verifyCaptcha_def Let_def using assms
    by (auto intro!: a b simp: userInv_def split: option.splits)
qed

lemma botInv_admin:
  assumes "botInv st"
  shows "botInv (handleLoginAdmin m uid p st)" "botInv (handleListUsers m u st)"
    "botInv (handleBlockUser m u a st)" "botInv (handleUnblockUser m u a st)"
    "botInv (handleAddTugas m u a b d st)" "botInv (handleListAllTasks m u st)"
    "botInv (handleDeleteTask m u a st)" "botInv (handleSetBonus m u a b st)"
  using assms
  unfolding handleLoginAdmin_def handleListUsers_def handleBlockUser_def handleUnblockUser_def
    handleAddTugas_def handleListAllTasks_def handleDeleteTask_def handleSetBonus_def Let_def
  by (auto intro!: botInv_modUser simp: userInv_def split: option.splits)

lemma botInv_delete: "botInv st \<Longrightarrow> botInv (st\<lparr>users := AList.delete k (users st)\<rparr>)"
  by (auto simp: botInv_def AList.delete_conv' split: if_splits)

lemma botInv_handleDeleteUser:
  assumes "botInv st"
  shows "botInv (handleDeleteUser m u a st)"
  using assms unfolding handleDeleteUser_def Let_def
  by (auto intro!: botInv_delete split: option.splits)

lemma botInv_media:
  assumes "botInv st"
  shows "botInv (handleImageGeneration m p e st)" "botInv (handleVideoGeneration m p e st)"
    "botInv (getAiResponse m e st)" "botInv (handleListAvailableTasks m u st)"
  using assms
  unfolding handleImageGeneration_def handleVideoGeneration_def getAiResponse_def
    handleListAvailableTasks_def Let_def
  by (auto split: image_result.splits video_result.splits ai_result.splits)

lemma botInv_dispatch:
  assumes "botInv st" and "map_of (users st) uid = Some u"
    and "\<not> isWaiting (captchaState u)" and "\<not> inGame u" and "0 \<le> rand e" and "rand e < 1"
  shows "botInv (dispatch m uid u e st)"
  unfolding dispatch_def Let_def using assms
  by (auto intro!: botInv_startGame botInv_handleClaim botInv_handleSelesai botInv_admin
        botInv_handleDeleteUser botInv_media split: ai_result.splits)

lemma dailyReset_flags [simp]:
  "captchaState (dailyReset d u) = captchaState u" "inGame (dailyReset d u) = inGame u"
  "balance (dailyReset d u) = balance u" "isAdmin (dailyReset d u) = isAdmin u"
  "isBlocked (dailyReset d u) = isBlocked u" "gameAnswer (dailyReset d u) = gameAnswer u"
  "lastLogin (dailyReset d u) = d"
  by (simp_all add: dailyReset_def)

lemma botInv_handleActive:
  assumes "botInv st" and "map_of (users st) (msg_from m) = Some u"
    and "0 \<le> rand e" and "rand e < 1"
  shows "botInv (handleActive m u e st)"
proof -
  let ?st1 = "modUser (msg_from m) (dailyReset (today e)) st"
  have i: "botInv ?st1" using assms(1) by (auto intro!: botInv_modUser)
  have l: "map_of (users ?st1) (msg_from m) = Some (dailyReset (today e) u)"
    using assms(2) by (simp add: map_of_modUser)
  show ?thesis
    unfolding handleActive_def Let_def using i l assms(3,4)
    by (auto intro!: botInv_verifyCaptcha botInv_handleGameInput botInv_dispatch)
qed

lemma userInv_newUser: "userInv (newUser d)"
  by (simp add: userInv_def newUser_def noCaptcha_def)

lemma botInv_handleMessage:
  assumes "botInv st" and "0 \<le> rand e" and "rand e < 1"
  shows "botInv (handleMessage e m st)"
proof (cases "map_of (users st) (msg_from m)")
  case None
  let ?st1 = "reply m Welcome (writeUsers (st\<lparr>users := AList.update (msg_from m) (newUser (today e)) (users st)\<rparr>))"
  have "botInv (st\<lparr>users := AList.update (msg_from m) (newUser (today e)) (users st)\<rparr>)"
    using assms(1) by (auto simp: botInv_def AList.update_conv' userInv_newUser split: if_splits)
  then have i: "botInv ?st1" by simp
  have l: "map_of (users ?st1) (msg_from m) = Some (newUser (today e))"
    by (simp add: reply_def writeUsers_def AList.update_conv')
  show ?thesis
    using None i botInv_handleActive [OF i l assms(2,3)]
    by (simp add: handleMessage_def Let_def)
next
  case (Some u)
  then show ?thesis
    using assms botInv_handleActive [OF assms(1) Some assms(2,3)]
    by (simp add: handleMessage_def)
qed

lemma reachable_botInv: "reachable st \<Longrightarrow> botInv st"
proof (induction rule: reachable.induct)
  case (start c ts)
  then show ?case by (simp add: botInv_def initial_def)
next
  case (message st e m)
  then show ?case by (simp add: botInv_handleMessage)
next
  case (timeout st t)
  then show ?case by (simp add: botInv_fireTimer)
qed


section \<open>Blocked senders\<close>

text \<open>
  C10. An inbound message from a user whose \<open>isBlocked\<close> flag is set leaves the whole
  bot state as it was: no reply and no store write is appended to the log, no record,
  task, timer or chat session changes, and the daily reset does not run (the record keeps
  its old \<open>lastLogin\<close>, \<open>claimedDailyBonus\<close> and \<open>completedTasksToday\<close>).
\<close>

theorem blocked_sender_ignored:
  assumes "map_of (users st) (msg_from m) = Some u" and "isBlocked u"
  shows "handleMessage e m st = st"
  using assms by (simp add: handleMessage_def)

theorem blocked_sender_ignored_witness:
  "map_of (users ex_blocked_bot) (msg_from \<lparr>msg_from = ''mallory'', body = ''/klaim''\<rparr>)
     = Some ex_blocked_user
   \<and> isBlocked ex_blocked_user
   \<and> lastLogin ex_blocked_user \<noteq> today ex_env
   \<and> handleMessage ex_env \<lparr>msg_from = ''mallory'', body = ''/klaim''\<rparr> ex_blocked_bot
     = ex_blocked_bot"
proof -
  have a: "map_of (users ex_blocked_bot) (msg_from \<lparr>msg_from = ''mallory'', body = ''/klaim''\<rparr>)
             = Some ex_blocked_user"
    by (simp add: ex_blocked_bot_def)
  have b: "isBlocked ex_blocked_user"
    by (simp add: ex_blocked_user_def)
  have c: "lastLogin ex_blocked_user \<noteq> today ex_env"
    by (simp add: ex_blocked_user_def ex_env_def)
  from a b c blocked_sender_ignored [OF a b, of ex_env] show ?thesis by simp
qed

section \<open>Modes\<close>

lemmas run_defs = handleMessage_def handleActive_def dispatch_def dailyReset_def newUser_def
  noCaptcha_def commandOf_def commandNameOf_def argsOf_def trim_def toUpperCase_def
  toLowerCase_def upperChar_def lowerChar_def isWhiteSpace_def startsWithSlash_def
  reply_def writeUsers_def modUser_def showMenu_def initial_def ex_env_def ex_config_def
  ex_alice_def Let_def

lemma ex_in_game_users:
  "users ex_in_game = [(''alice'', (newUser ''Mon Nov 02 2026'')\<lparr>inGame := True, gameAnswer := 51\<rparr>)]"
  by (simp add: ex_in_game_def run_defs startGame_def)

lemma ex_after_game_users:
  "users ex_after_game = [(''alice'', (newUser ''Mon Nov 02 2026'')\<lparr>gameAnswer := 51\<rparr>)]"
  by (simp add: ex_after_game_def ex_in_game_def run_defs startGame_def handleGameInput_def)

lemma ex_env_rand: "0 \<le> rand ex_env" "rand ex_env < 1"
  by (simp_all add: ex_env_def)

lemma ex_in_game_reachable: "reachable ex_in_game"
  unfolding ex_in_game_def by (intro reachable.intros ex_env_rand)

lemma ex_after_game_reachable: "reachable ex_after_game"
  unfolding ex_after_game_def by (intro reachable.message ex_in_game_reachable ex_env_rand)

text \<open>
  C1 (as amended). In every reachable state and for every user record: a pending challenge
  is present exactly when the mode is \<open>AwaitingVerification\<close>; whenever the mode is
  \<open>InGame\<close> a game target between 1 and 100 is present; the flags
  \<open>captchaState.isWaiting\<close> and \<open>inGame\<close> are never both set, so each flag alone
  decides the mode and the user is in exactly one of the three modes. Reachable states are
  closed under every operation (message handling, timer expiry), so every operation
  preserves this. The converse for the game target is not claimed: \<open>gameAnswer\<close> is
  never cleared.
\<close>

theorem mode_invariant:
  assumes "reachable st" and "map_of (users st) uid = Some u"
  shows "((pendingChallenge u \<noteq> None) = (mode u = AwaitingVerification))
       \<and> (mode u = InGame \<longrightarrow> gameTarget u \<noteq> None)
       \<and> \<not> (isWaiting (captchaState u) \<and> inGame u)
       \<and> ((mode u = AwaitingVerification) = isWaiting (captchaState u))
       \<and> ((mode u = InGame) = inGame u)
       \<and> ((mode u = Idle) = (\<not> isWaiting (captchaState u) \<and> \<not> inGame u))"
proof -
  have "userInv u"
    using reachable_botInv [OF assms(1)] assms(2) by (simp add: botInv_def)
  then show ?thesis
    by (auto simp: userInv_def mode_def pendingChallenge_def gameTarget_def split: option.splits)
qed

theorem mode_invariant_witness:
  "reachable ex_in_game
   \<and> map_of (users ex_in_game) ''alice''
       = Some ((newUser ''Mon Nov 02 2026'')\<lparr>inGame := True, gameAnswer := 51\<rparr>)
   \<and> mode ((newUser ''Mon Nov 02 2026'')\<lparr>inGame := True, gameAnswer := 51\<rparr>) = InGame
   \<and> gameTarget ((newUser ''Mon Nov 02 2026'')\<lparr>inGame := True, gameAnswer := 51\<rparr>) = Some 51
   \<and> pendingChallenge ((newUser ''Mon Nov 02 2026'')\<lparr>inGame := True, gameAnswer := 51\<rparr>) = None"
proof -
  have l: "map_of (users ex_in_game) ''alice''
       = Some ((newUser ''Mon Nov 02 2026'')\<lparr>inGame := True, gameAnswer := 51\<rparr>)"
    by (simp add: ex_in_game_users)
  from mode_invariant [OF ex_in_game_reachable l] ex_in_game_reachable l show ?thesis
    by (simp add: mode_def gameTarget_def pendingChallenge_def newUser_def noCaptcha_def)
qed

text \<open>
  C1 as stated fails in one direction: after \<open>/game\<close> and \<open>/exitgame\<close> the
  record is back in mode \<open>Idle\<close> and still stores the target 51.
\<close>

theorem game_target_presence_counterexample:
  "\<not> (\<forall>st uid u. reachable st \<longrightarrow> map_of (users st) uid = Some u \<longrightarrow>
        ((pendingChallenge u \<noteq> None) = (mode u = AwaitingVerification))
        \<and> ((gameTarget u \<noteq> None) = (mode u = InGame)))"
proof
  assume a: "\<forall>st uid u. reachable st \<longrightarrow> map_of (users st) uid = Some u \<longrightarrow>
        ((pendingChallenge u \<noteq> None) = (mode u = AwaitingVerification))
        \<and> ((gameTarget u \<noteq> None) = (mode u = InGame))"
  let ?u = "(newUser ''Mon Nov 02 2026'')\<lparr>gameAnswer := 51\<rparr>"
  have "map_of (users ex_after_game) ''alice'' = Some ?u"
    by (simp add: ex_after_game_users)
  with a ex_after_game_reachable have "(gameTarget ?u \<noteq> None) = (mode ?u = InGame)"
    by blast
  then show False
    by (simp add: gameTarget_def mode_def newUser_def noCaptcha_def)
qed

section \<open>Commands never touch the ledger\<close>

lemma sameLedger_refl [simp]: "sameLedger u u"
  by (simp add: sameLedger_def)

lemma ledgerStable_same: "users st' = users st \<Longrightarrow> ledgerStable st st'"
  by (simp add: ledgerStable_def)

lemma ledgerStable_modUser:
  assumes "\<And>v. sameLedger v (f v)"
  shows "ledgerStable st (modUser k f st)"
  using assms by (auto simp: ledgerStable_def map_of_modUser split: if_splits)

lemma ledgerStable_delete: "ledgerStable st (st\<lparr>users := AList.delete k (users st)\<rparr>)"
  by (auto simp: ledgerStable_def AList.delete_conv' split: if_splits)

lemma eff_users [simp]:
  "users (reply m r st) = users st" "users (writeUsers st) = users st"
  "users (writeTasks st) = users st" "users (writeConfig st) = users st"
  "users (uncaught er st) = users st" "users (showMenu m u st) = users st"
  "users (clearTimeout t st) = users st"
  by (simp_all add: effs clearTimeout_def)

lemma ledgerStable_eff [simp]:
  "ledgerStable st (reply m r st') = ledgerStable st st'"
  "ledgerStable st (writeUsers st') = ledgerStable st st'"
  "ledgerStable st (writeTasks st') = ledgerStable st st'"
  "ledgerStable st (writeConfig st') = ledgerStable st st'"
  "ledgerStable st (uncaught er st') = ledgerStable st st'"
  "ledgerStable st (showMenu m u st') = ledgerStable st st'"
  by (simp_all add: ledgerStable_def)

lemma ledgerStable_refl [simp]: "ledgerStable st st"
  by (simp add: ledgerStable_same)

lemma ledgerStable_fields [simp]:
  "ledgerStable st (st\<lparr>tasks := a\<rparr>)" "ledgerStable st (st\<lparr>config := b\<rparr>)"
  "ledgerStable st (st\<lparr>userChats := c\<rparr>)" "ledgerStable st (st\<lparr>out := d\<rparr>)"
  by (simp_all add: ledgerStable_same)

lemma ledgerStable_setTimeout:
  "ledgerStable st (modUser k f (setTimeout a b st)) = ledgerStable st (modUser k f st)"
  by (simp add: ledgerStable_def map_of_modUser)

lemma ledgerStable_handleClaim: "ledgerStable st (handleClaim m uid u e st)"
  unfolding handleClaim_def Let_def
  by (auto intro!: ledgerStable_modUser simp: sameLedger_def)

lemma ledgerStable_handleSelesai: "ledgerStable st (handleSelesai m uid u a e st)"
  unfolding handleSelesai_def Let_def
  by (auto intro!: ledgerStable_modUser simp: sameLedger_def ledgerStable_setTimeout
        split: option.splits)

lemma ledgerStable_startGame: "ledgerStable st (startGame m uid e st)"
  unfolding startGame_def
  by (auto intro!: ledgerStable_modUser simp: sameLedger_def)

lemma ledgerStable_handleLoginAdmin: "ledgerStable st (handleLoginAdmin m uid p st)"
  unfolding handleLoginAdmin_def
  by (auto intro!: ledgerStable_modUser simp: sameLedger_def)

lemma ledgerStable_handleBlockUser: "ledgerStable st (handleBlockUser m u a st)"
  unfolding handleBlockUser_def Let_def
  by (auto intro!: ledgerStable_modUser simp: sameLedger_def split: option.splits)

lemma ledgerStable_handleUnblockUser: "ledgerStable st (handleUnblockUser m u a st)"
  unfolding handleUnblockUser_def Let_def
  by (auto intro!: ledgerStable_modUser simp: sameLedger_def split: option.splits)

lemma ledgerStable_handleDeleteUser: "ledgerStable st (handleDeleteUser m u a st)"
  unfolding handleDeleteUser_def Let_def
  by (auto intro!: ledgerStable_delete split: option.splits)

lemma ledgerStable_tasks_cmds:
  "ledgerStable st (handleAddTugas m u a b d st)" "ledgerStable st (handleDeleteTask m u a st)"
  "ledgerStable st (handleSetBonus m u a b st)" "ledgerStable st (handleListAllTasks m u st)"
  "ledgerStable st (handleListUsers m u st)" "ledgerStable st (handleListAvailableTasks m u st)"
  unfolding handleAddTugas_def handleDeleteTask_def handleSetBonus_def handleListAllTasks_def
    handleListUsers_def handleListAvailableTasks_def Let_def
  by (auto intro!: ledgerStable_same split: option.splits)

lemma ledgerStable_media:
  "ledgerStable st (handleImageGeneration m p e st)"
  "ledgerStable st (handleVideoGeneration m p e st)" "ledgerStable st (getAiResponse m e st)"
  unfolding handleImageGeneration_def handleVideoGeneration_def getAiResponse_def Let_def
  by (auto intro!: ledgerStable_same
        split: ai_result.splits image_result.splits video_result.splits)

lemmas ledgerStable_cmds = ledgerStable_handleClaim ledgerStable_handleSelesai
  ledgerStable_startGame ledgerStable_handleLoginAdmin ledgerStable_handleBlockUser
  ledgerStable_handleUnblockUser ledgerStable_handleDeleteUser ledgerStable_tasks_cmds
  ledgerStable_media

lemma ledgerStable_dispatch: "ledgerStable st (dispatch m uid u e st)"
  unfolding dispatch_def Let_def
  by (simp add: ledgerStable_cmds split: ai_result.splits)

lemma handleMessage_existing:
  "map_of (users st) (msg_from m) = Some u \<Longrightarrow> \<not> isBlocked u \<Longrightarrow>
   handleMessage e m st = handleActive m u e st"
  by (simp add: handleMessage_def)

lemma handleActive_idle:
  "\<not> isWaiting (captchaState u) \<Longrightarrow> \<not> inGame u \<Longrightarrow>
   handleActive m u e st
     = dispatch m (msg_from m) (dailyReset (today e) u) e
         (modUser (msg_from m) (dailyReset (today e)) st)"
  by (simp add: handleActive_def Let_def)

text \<open>A message from a user in mode \<open>Idle\<close> credits nothing: the sender's balance
  stays, and so do the two daily fields once the daily reset has run.\<close>

lemma idle_message_ledger:
  assumes "map_of (users st) (msg_from m) = Some u" and "\<not> isBlocked u"
    and "\<not> isWaiting (captchaState u)" and "\<not> inGame u"
    and "map_of (users (handleMessage e m st)) (msg_from m) = Some u'"
  shows "sameLedger (dailyReset (today e) u) u'"
proof -
  let ?st1 = "modUser (msg_from m) (dailyReset (today e)) st"
  have eq: "handleMessage e m st = dispatch m (msg_from m) (dailyReset (today e) u) e ?st1"
    using assms(1-4) by (simp add: handleMessage_existing handleActive_idle)
  have "ledgerStable ?st1 (dispatch m (msg_from m) (dailyReset (today e) u) e ?st1)"
    by (rule ledgerStable_dispatch)
  with assms(5) eq obtain v where "map_of (users ?st1) (msg_from m) = Some v" "sameLedger v u'"
    by (auto simp: ledgerStable_def)
  with assms(1) show ?thesis by (simp add: map_of_modUser)
qed

lemma idle_message_balance:
  assumes "map_of (users st) (msg_from m) = Some u"
    and "\<not> isWaiting (captchaState u)" and "\<not> inGame u"
    and "map_of (users (handleMessage e m st)) (msg_from m) = Some u'"
  shows "balance u' = balance u"
proof (cases "isBlocked u")
  case True
  then have "handleMessage e m st = st" using assms(1) by (simp add: handleMessage_def)
  with assms(1,4) show ?thesis by simp
next
  case False
  from idle_message_ledger [OF assms(1) False assms(2,3,4)] show ?thesis
    by (simp add: sameLedger_def)
qed

section \<open>Resolving a challenge\<close>

lemma handleActive_waiting:
  "isWaiting (captchaState u) \<Longrightarrow>
   handleActive m u e st
     = verifyCaptcha m (msg_from m) (dailyReset (today e) u) (body m) e
         (modUser (msg_from m) (dailyReset (today e)) st)"
  by (simp add: handleActive_def Let_def)


lemma verifyCaptcha_task:
  assumes "map_of (users st) uid = Some u" and "captchaMatches input (captchaState u)"
    and "ctype (captchaState u) = Some Task" and "ctask (captchaState u) = Some tk"
  shows "map_of (users (verifyCaptcha m uid u input e st)) uid
           = Some (u\<lparr>balance := balance u + bonus tk,
                     completedTasksToday := completedTasksToday u @ [task_id tk],
                     captchaState := noCaptcha\<rparr>)"
  using assms
  by (simp add: verifyCaptcha_def Let_def map_of_modUser split: option.splits)

lemma verifyCaptcha_claim:
  assumes "map_of (users st) uid = Some u" and "captchaMatches input (captchaState u)"
    and "ctype (captchaState u) = Some Claim"
  shows "map_of (users (verifyCaptcha m uid u input e st)) uid
           = Some (u\<lparr>balance := balance u + claimReward (config st) (rand e),
                     claimedDailyBonus := True, captchaState := noCaptcha\<rparr>)"
  using assms
  by (simp add: verifyCaptcha_def Let_def map_of_modUser split: option.splits)

lemma verifyCaptcha_cleared:
  assumes "map_of (users st) uid = Some u"
  shows "\<exists>u'. map_of (users (verifyCaptcha m uid u input e st)) uid = Some u'
              \<and> captchaState u' = noCaptcha \<and> inGame u' = inGame u"
  using assms
  by (simp add: verifyCaptcha_def Let_def map_of_modUser uncaught_def split: option.splits)


lemma verifyCaptcha_timers:
  "timers (verifyCaptcha m uid u input e st)
     = (case timerId (captchaState u) of
          None \<Rightarrow> timers st
        | Some t \<Rightarrow> if t \<noteq> 0 then filter (\<lambda>x. tm_id x \<noteq> t) (timers st) else timers st)"
  by (simp add: verifyCaptcha_def Let_def effs modUser_def clearTimeout_def split: option.splits)



lemma reachable_userInv:
  "reachable st \<Longrightarrow> map_of (users st) uid = Some u \<Longrightarrow> userInv u"
  using reachable_botInv by (simp add: botInv_def)


lemmas parse_defs = parseIntArg_def parseInt_def digitVal_def hexVal_def fromDigits_def

lemma ex_claim_pending_users: "users ex_claim_pending = [(''alice'', ex_claim_user)]"
  by (simp add: ex_claim_pending_def ex_claim_user_def run_defs handleClaim_def
        generateCaptcha_def)

lemma ex_claim_pending_config: "config ex_claim_pending = ex_config"
  by (simp add: ex_claim_pending_def run_defs handleClaim_def)

lemma ex_claim_pending_reachable: "reachable ex_claim_pending"
  unfolding ex_claim_pending_def by (intro reachable.intros ex_env_rand)

lemma ex_task_pending_users: "users ex_task_pending = [(''alice'', ex_task_user)]"
  by (simp add: ex_task_pending_def ex_task_user_def ex_task_def run_defs handleSelesai_def
        generateCaptcha_def parse_defs setTimeout_def)

lemma ex_task_pending_timers:
  "timers ex_task_pending = [\<lparr>tm_id = 1, tm_from = ''alice'', tm_taskId = 1\<rparr>]"
  by (simp add: ex_task_pending_def ex_task_def run_defs handleSelesai_def
        generateCaptcha_def parse_defs setTimeout_def)

lemma ex_task_pending_reachable: "reachable ex_task_pending"
  unfolding ex_task_pending_def by (intro reachable.intros ex_env_rand)





section \<open>The daily bonus\<close>

lemma map_entry_cong:
  "map_of xs k = Some v \<Longrightarrow> f v = g v \<Longrightarrow> AList.map_entry k f xs = AList.map_entry k g xs"
  by (induction xs) (auto split: if_splits)

lemma map_entry_same:
  "map_of xs k = Some v \<Longrightarrow> f v = v \<Longrightarrow> AList.map_entry k f xs = xs"
  by (induction xs) (auto split: if_splits)

lemma modUser_cong:
  "map_of (users st) k = Some v \<Longrightarrow> f v = g v \<Longrightarrow> modUser k f st = modUser k g st"
  by (simp add: modUser_def map_entry_cong [of _ _ _ f g])

lemma modUser_same:
  "map_of (users st) k = Some v \<Longrightarrow> f v = v \<Longrightarrow> modUser k f st = st"
  by (simp add: modUser_def map_entry_same [of _ _ _ f])

lemma splitSpace_first:
  "splitSpace s = w # ws \<Longrightarrow> w \<noteq> [] \<Longrightarrow> \<exists>t. s = hd w # t"
  by (cases s) (auto split: if_splits list.splits)

lemma commandName_slash:
  assumes "commandNameOf b = CHR ''/'' # r"
  shows "startsWithSlash (commandOf b)"
proof -
  from assms obtain ws where "splitSpace (commandOf b) = (CHR ''/'' # r) # ws"
    by (auto simp: commandNameOf_def split: list.splits)
  from splitSpace_first [OF this] show ?thesis
    by (auto simp: startsWithSlash_def)
qed

lemma dispatch_klaim:
  assumes "commandNameOf (body m) = ''/klaim''"
  shows "dispatch m uid u e st = handleClaim m uid u e st"
  using assms commandName_slash [of "body m" "''klaim''"]
  by (simp add: dispatch_def)

lemma claim_again:
  assumes "map_of (users st) (msg_from m) = Some u" and "\<not> isBlocked u"
    and "\<not> isWaiting (captchaState u)" and "\<not> inGame u"
    and "claimedDailyBonus u" and "lastLogin u = today e"
    and "commandNameOf (body m) = ''/klaim''"
  shows "handleMessage e m st = st\<lparr>out := out st @ [Reply (msg_from m) AlreadyClaimed]\<rparr>"
proof -
  have d: "dailyReset (today e) u = u" using assms(6) by (simp add: dailyReset_def)
  have s: "modUser (msg_from m) (dailyReset (today e)) st = st"
    using assms(1) d by (rule modUser_same)
  show ?thesis
    using assms(1-5) d s
    by (simp add: handleMessage_existing handleActive_idle dispatch_klaim [OF assms(7)]
          handleClaim_def reply_def)
qed

text \<open>
  C5. For a user (not blocked, in mode \<open>Idle\<close>) whose \<open>claimedDailyBonus\<close> is set
  for the current date, the claim command only appends the already-claimed reply: users
  (so balance, mode and pending challenge), tasks, configuration and timers are unchanged
  and nothing is written. In particular, after a correct answer to a claim challenge, a
  claim command on the same date is rejected in this way.
\<close>

theorem second_claim_rejected:
  "(map_of (users st) (msg_from m) = Some u \<and> \<not> isBlocked u \<and> mode u = Idle
      \<and> claimedDailyBonus u \<and> lastLogin u = today e
      \<and> commandNameOf (body m) = ''/klaim''
     \<longrightarrow> handleMessage e m st = st\<lparr>out := out st @ [Reply (msg_from m) AlreadyClaimed]\<rparr>)
   \<and> (reachable st \<and> map_of (users st) (msg_from m1) = Some u \<and> \<not> isBlocked u
      \<and> isWaiting (captchaState u) \<and> ctype (captchaState u) = Some Claim
      \<and> captchaMatches (body m1) (captchaState u)
      \<and> msg_from m = msg_from m1 \<and> today e = today e1
      \<and> commandNameOf (body m) = ''/klaim''
     \<longrightarrow> handleMessage e m (handleMessage e1 m1 st)
           = (handleMessage e1 m1 st)
               \<lparr>out := out (handleMessage e1 m1 st) @ [Reply (msg_from m) AlreadyClaimed]\<rparr>)"
proof (intro conjI impI)
  assume a: "map_of (users st) (msg_from m) = Some u \<and> \<not> isBlocked u \<and> mode u = Idle
      \<and> claimedDailyBonus u \<and> lastLogin u = today e
      \<and> commandNameOf (body m) = ''/klaim''"
  then have "\<not> isWaiting (captchaState u)" "\<not> inGame u"
    by (auto simp: mode_def split: if_splits)
  with a show "handleMessage e m st = st\<lparr>out := out st @ [Reply (msg_from m) AlreadyClaimed]\<rparr>"
    by (intro claim_again) auto
next
  assume a: "reachable st \<and> map_of (users st) (msg_from m1) = Some u \<and> \<not> isBlocked u
      \<and> isWaiting (captchaState u) \<and> ctype (captchaState u) = Some Claim
      \<and> captchaMatches (body m1) (captchaState u)
      \<and> msg_from m = msg_from m1 \<and> today e = today e1
      \<and> commandNameOf (body m) = ''/klaim''"
  let ?u0 = "dailyReset (today e1) u"
  let ?st0 = "modUser (msg_from m1) (dailyReset (today e1)) st"
  let ?st1 = "handleMessage e1 m1 st"
  let ?u1 = "?u0\<lparr>balance := balance ?u0 + claimReward (config ?st0) (rand e1),
                  claimedDailyBonus := True, captchaState := noCaptcha\<rparr>"
  have inv: "userInv u" using a reachable_userInv by blast
  have eq: "?st1 = verifyCaptcha m1 (msg_from m1) ?u0 (body m1) e1 ?st0"
    using a by (simp add: handleMessage_existing handleActive_waiting)
  have l0: "map_of (users ?st0) (msg_from m1) = Some ?u0"
    using a by (simp add: map_of_modUser)
  have l1: "map_of (users ?st1) (msg_from m) = Some ?u1"
    using verifyCaptcha_claim [OF l0, of "body m1" m1 e1] a by (simp add: eq)
  have ng: "\<not> inGame u" using inv a by (auto simp: userInv_def)
  show "handleMessage e m ?st1
           = ?st1\<lparr>out := out ?st1 @ [Reply (msg_from m) AlreadyClaimed]\<rparr>"
    using a ng by (intro claim_again [OF l1]) (simp_all add: noCaptcha_def)
qed

lemma ex_claimed_users: "users ex_claimed = [(''alice'', ex_claimed_user)]"
  by (simp add: ex_claimed_def handleMessage_def handleActive_def Let_def
        ex_claim_pending_users ex_alice_def ex_claim_user_def newUser_def dailyReset_def
        ex_env_def verifyCaptcha_def captchaMatches_def trim_def toUpperCase_def upperChar_def
        isWhiteSpace_def modUser_def effs ex_claimed_user_def noCaptcha_def
        ex_claim_pending_config [simplified ex_env_def] claimReward_def ex_config_def)

theorem second_claim_rejected_witness:
  "map_of (users ex_claimed) (msg_from (ex_alice ''/klaim'')) = Some ex_claimed_user
   \<and> \<not> isBlocked ex_claimed_user \<and> mode ex_claimed_user = Idle
   \<and> claimedDailyBonus ex_claimed_user \<and> lastLogin ex_claimed_user = today ex_env
   \<and> commandNameOf (body (ex_alice ''/klaim'')) = ''/klaim''
   \<and> handleMessage ex_env (ex_alice ''/klaim'') ex_claimed
       = ex_claimed\<lparr>out := out ex_claimed @ [Reply ''alice'' AlreadyClaimed]\<rparr>
   \<and> reachable ex_claim_pending
   \<and> map_of (users ex_claim_pending) (msg_from (ex_alice '' k3xq9z '')) = Some ex_claim_user
   \<and> \<not> isBlocked ex_claim_user \<and> isWaiting (captchaState ex_claim_user)
   \<and> ctype (captchaState ex_claim_user) = Some Claim
   \<and> captchaMatches (body (ex_alice '' k3xq9z '')) (captchaState ex_claim_user)
   \<and> handleMessage ex_env (ex_alice ''/klaim'')
         (handleMessage ex_env (ex_alice '' k3xq9z '') ex_claim_pending)
       = (handleMessage ex_env (ex_alice '' k3xq9z '') ex_claim_pending)
           \<lparr>out := out (handleMessage ex_env (ex_alice '' k3xq9z '') ex_claim_pending)
                    @ [Reply ''alice'' AlreadyClaimed]\<rparr>"
proof -
  have h: "map_of (users ex_claimed) (msg_from (ex_alice ''/klaim'')) = Some ex_claimed_user
   \<and> \<not> isBlocked ex_claimed_user \<and> mode ex_claimed_user = Idle
   \<and> claimedDailyBonus ex_claimed_user \<and> lastLogin ex_claimed_user = today ex_env
   \<and> commandNameOf (body (ex_alice ''/klaim'')) = ''/klaim''"
    by (simp add: ex_claimed_users ex_alice_def ex_claimed_user_def newUser_def mode_def
          noCaptcha_def ex_env_def commandNameOf_def commandOf_def trim_def toLowerCase_def
          lowerChar_def isWhiteSpace_def)
  from second_claim_rejected [of ex_claimed "ex_alice ''/klaim''" ex_claimed_user ex_env] h
  have c1: "handleMessage ex_env (ex_alice ''/klaim'') ex_claimed
       = ex_claimed\<lparr>out := out ex_claimed @ [Reply (msg_from (ex_alice ''/klaim'')) AlreadyClaimed]\<rparr>"
    by blast
  have h2: "reachable ex_claim_pending
     \<and> map_of (users ex_claim_pending) (msg_from (ex_alice '' k3xq9z '')) = Some ex_claim_user
     \<and> \<not> isBlocked ex_claim_user \<and> isWaiting (captchaState ex_claim_user)
     \<and> ctype (captchaState ex_claim_user) = Some Claim
     \<and> captchaMatches (body (ex_alice '' k3xq9z '')) (captchaState ex_claim_user)
     \<and> msg_from (ex_alice ''/klaim'') = msg_from (ex_alice '' k3xq9z '')
     \<and> today ex_env = today ex_env"
    by (simp add: ex_claim_pending_reachable ex_claim_pending_users ex_alice_def
          ex_claim_user_def newUser_def captchaMatches_def trim_def toUpperCase_def
          upperChar_def isWhiteSpace_def)
  from second_claim_rejected [of ex_claim_pending "ex_alice ''/klaim''" ex_claim_user ex_env
         "ex_alice '' k3xq9z ''" ex_env] h h2
  have c2: "handleMessage ex_env (ex_alice ''/klaim'')
         (handleMessage ex_env (ex_alice '' k3xq9z '') ex_claim_pending)
       = (handleMessage ex_env (ex_alice '' k3xq9z '') ex_claim_pending)
           \<lparr>out := out (handleMessage ex_env (ex_alice '' k3xq9z '') ex_claim_pending)
                    @ [Reply (msg_from (ex_alice ''/klaim'')) AlreadyClaimed]\<rparr>"
    by blast
  from h h2 c1 c2 show ?thesis by (simp add: ex_alice_def)
qed

section \<open>The daily reset\<close>

lemma verifyCaptcha_lastLogin:
  assumes "map_of (users st) uid = Some u"
    and "map_of (users (verifyCaptcha m uid u input e st)) uid = Some u'"
  shows "lastLogin u' = lastLogin u"
  using assms
  by (auto simp: verifyCaptcha_def Let_def map_of_modUser uncaught_def
        split: option.splits if_splits)

lemma handleGameInput_lastLogin:
  assumes "map_of (users st) uid = Some u"
    and "map_of (users (handleGameInput m uid u input st)) uid = Some u'"
  shows "lastLogin u' = lastLogin u"
  using assms
  by (auto simp: handleGameInput_def map_of_modUser split: option.splits if_splits)

lemma dispatch_lastLogin:
  assumes "map_of (users st) uid = Some u"
    and "map_of (users (dispatch m uid u e st)) uid = Some u'"
  shows "lastLogin u' = lastLogin u"
proof -
  from ledgerStable_dispatch [of st m uid u e] assms(2)
  obtain v where "map_of (users st) uid = Some v" "sameLedger v u'"
    unfolding ledgerStable_def by blast
  with assms(1) show ?thesis by (simp add: sameLedger_def)
qed

text \<open>
  C6. For an inbound message of a non-blocked user whose \<open>lastLogin\<close> differs from the
  current date, the record is first reset (\<open>lastLogin\<close> becomes the current date,
  \<open>claimedDailyBonus\<close> false, \<open>completedTasksToday\<close> empty), and only then the
  captcha check, the game turn or the command dispatch runs, on the reset record: handling
  the message is the same as handling it in the state with that user's record already
  reset, and if the record still exists afterwards its \<open>lastLogin\<close> is the current
  date.
\<close>

theorem daily_reset_first:
  assumes "map_of (users st) (msg_from m) = Some u" and "\<not> isBlocked u"
    and "lastLogin u \<noteq> today e"
  shows
    "(let u1 = u\<lparr>lastLogin := today e, claimedDailyBonus := False, completedTasksToday := []\<rparr>;
          st1 = modUser (msg_from m)
                  (\<lambda>v. v\<lparr>lastLogin := today e, claimedDailyBonus := False,
                          completedTasksToday := []\<rparr>) st
      in map_of (users st1) (msg_from m) = Some u1
         \<and> handleMessage e m st
             = (if isWaiting (captchaState u1) then verifyCaptcha m (msg_from m) u1 (body m) e st1
                else if inGame u1 then handleGameInput m (msg_from m) u1 (body m) st1
                else dispatch m (msg_from m) u1 e st1)
         \<and> handleMessage e m st = handleMessage e m st1
         \<and> (\<forall>u'. map_of (users (handleMessage e m st)) (msg_from m) = Some u'
                \<longrightarrow> lastLogin u' = today e))"
proof -
  let ?uid = "msg_from m"
  let ?r = "\<lambda>v. v\<lparr>lastLogin := today e, claimedDailyBonus := False, completedTasksToday := []\<rparr>"
  let ?u1 = "?r u"
  let ?st1 = "modUser ?uid ?r st"
  have d: "dailyReset (today e) u = ?u1" using assms(3) by (simp add: dailyReset_def)
  have s: "modUser ?uid (dailyReset (today e)) st = ?st1"
    using assms(1) d by (rule modUser_cong)
  have l1: "map_of (users ?st1) ?uid = Some ?u1"
    using assms(1) by (simp add: map_of_modUser)
  have route: "handleMessage e m st
      = (if isWaiting (captchaState ?u1) then verifyCaptcha m ?uid ?u1 (body m) e ?st1
         else if inGame ?u1 then handleGameInput m ?uid ?u1 (body m) ?st1
         else dispatch m ?uid ?u1 e ?st1)"
    using assms(1,2) d s by (simp add: handleMessage_existing handleActive_def Let_def)
  have d1: "dailyReset (today e) ?u1 = ?u1" by (simp add: dailyReset_def)
  have s1: "modUser ?uid (dailyReset (today e)) ?st1 = ?st1"
    using l1 d1 by (rule modUser_same)
  have nb: "\<not> isBlocked ?u1" using assms(2) by simp
  have again: "handleMessage e m ?st1
      = (if isWaiting (captchaState ?u1) then verifyCaptcha m ?uid ?u1 (body m) e ?st1
         else if inGame ?u1 then handleGameInput m ?uid ?u1 (body m) ?st1
         else dispatch m ?uid ?u1 e ?st1)"
    using d1 s1 by (simp add: handleMessage_existing [OF l1 nb] handleActive_def Let_def)
  have date: "lastLogin u' = today e"
    if "map_of (users (handleMessage e m st)) ?uid = Some u'" for u'
  proof -
    have "lastLogin u' = lastLogin ?u1"
      using that verifyCaptcha_lastLogin [OF l1, of m "body m" e u']
        handleGameInput_lastLogin [OF l1, of m "body m" u'] dispatch_lastLogin [OF l1, of m e u']
      by (simp add: route split: if_splits)
    then show ?thesis by simp
  qed
  show ?thesis
    unfolding Let_def using l1 route again date by simp
qed

theorem daily_reset_first_witness:
  "map_of (users ex_stale_bot) (msg_from (ex_alice ''/klaim'')) = Some ex_stale_user
   \<and> \<not> isBlocked ex_stale_user \<and> lastLogin ex_stale_user \<noteq> today ex_env
   \<and> claimedDailyBonus ex_stale_user
   \<and> handleMessage ex_env (ex_alice ''/klaim'') ex_stale_bot
       = handleMessage ex_env (ex_alice ''/klaim'')
           (ex_stale_bot\<lparr>users := [(''alice'', (newUser ''Mon Nov 02 2026'')\<lparr>balance := 300\<rparr>)]\<rparr>)"
proof -
  have l: "map_of (users ex_stale_bot) (msg_from (ex_alice ''/klaim'')) = Some ex_stale_user"
    by (simp add: ex_stale_bot_def ex_alice_def)
  have nb: "\<not> isBlocked ex_stale_user" and c: "claimedDailyBonus ex_stale_user"
    by (simp_all add: ex_stale_user_def)
  have d: "lastLogin ex_stale_user \<noteq> today ex_env"
    by (simp add: ex_stale_user_def ex_env_def)
  have st1: "modUser (msg_from (ex_alice ''/klaim''))
                  (\<lambda>v. v\<lparr>lastLogin := today ex_env, claimedDailyBonus := False,
                          completedTasksToday := []\<rparr>) ex_stale_bot
      = ex_stale_bot\<lparr>users := [(''alice'', (newUser ''Mon Nov 02 2026'')\<lparr>balance := 300\<rparr>)]\<rparr>"
    by (simp add: modUser_def ex_stale_bot_def ex_alice_def ex_stale_user_def newUser_def
          ex_env_def)
  from daily_reset_first [OF l nb d, unfolded Let_def, THEN conjunct2, THEN conjunct2,
         THEN conjunct1]
  have "handleMessage ex_env (ex_alice ''/klaim'') ex_stale_bot
       = handleMessage ex_env (ex_alice ''/klaim'')
           (modUser (msg_from (ex_alice ''/klaim''))
                  (\<lambda>v. v\<lparr>lastLogin := today ex_env, claimedDailyBonus := False,
                          completedTasksToday := []\<rparr>) ex_stale_bot)" .
  with l nb d c st1 show ?thesis by simp
qed

section \<open>The guessing game\<close>








section \<open>The task catalog\<close>













section \<open>Deleting a task with a challenge in flight\<close>

lemma handleDeleteTask_users [simp]: "users (handleDeleteTask m u a st) = users st"
  by (simp add: handleDeleteTask_def split: option.splits)

lemma handleDeleteTask_config [simp]: "config (handleDeleteTask m u a st) = config st"
  by (simp add: handleDeleteTask_def effs split: option.splits)

lemma handleDeleteTask_deletes:
  assumes "isAdmin u" and "parseIntArg a = Some k" and "k \<in> task_id ` set (tasks st)"
  shows "tasks (handleDeleteTask m u a st) = removeFirst (\<lambda>t. task_id t = k) (tasks st)"
  using assms by (auto simp: handleDeleteTask_def effs)

lemma find_removeFirst:
  "distinct (map f xs) \<Longrightarrow> List.find (\<lambda>t. f t = k) (removeFirst (\<lambda>t. f t = k) xs) = None"
proof (induction xs)
  case Nil
  then show ?case by simp
next
  case (Cons x xs)
  show ?case
  proof (cases "f x = k")
    case True
    with Cons.prems have "k \<notin> f ` set xs" by auto
    then have "List.find (\<lambda>t. f t = k) xs = None" by (auto simp: find_None_iff)
    with True show ?thesis by simp
  next
    case False
    with Cons show ?thesis by simp
  qed
qed

text \<open>
  C9. A user holds a task challenge; \<open>handleDeleteTask\<close> then runs (for an admin and
  the id of that task it removes the task from the catalog, and with distinct ids no task
  of that id is left). The user records are untouched by it, so recorded
  \<open>completedTasksToday\<close> entries and the challenge with its captured task stay as they
  are, and a matching answer afterwards still adds the captured task's bonus to the balance
  and appends its id to \<open>completedTasksToday\<close>.
\<close>

theorem deleted_task_still_credited:
  assumes "reachable st" and "map_of (users st) (msg_from m) = Some u"
    and "\<not> isBlocked u" and "isWaiting (captchaState u)"
    and "ctype (captchaState u) = Some Task"
  shows "\<exists>tk. ctask (captchaState u) = Some tk \<and>
    (let st1 = handleDeleteTask ma ua a st
     in users st1 = users st
        \<and> (isAdmin ua \<and> parseIntArg a = Some (task_id tk)
             \<and> task_id tk \<in> task_id ` set (tasks st) \<longrightarrow>
             tasks st1 = removeFirst (\<lambda>t. task_id t = task_id tk) (tasks st)
             \<and> (distinct (map task_id (tasks st)) \<longrightarrow>
                  List.find (\<lambda>t. task_id t = task_id tk) (tasks st1) = None))
        \<and> (captchaMatches (body m) (captchaState u) \<longrightarrow>
             map_of (users (handleMessage e m st1)) (msg_from m)
               = Some ((dailyReset (today e) u)
                    \<lparr>balance := balance u + bonus tk,
                     completedTasksToday :=
                       completedTasksToday (dailyReset (today e) u) @ [task_id tk],
                     captchaState := noCaptcha\<rparr>)))"
proof -
  let ?uid = "msg_from m"
  let ?st1 = "handleDeleteTask ma ua a st"
  let ?u0 = "dailyReset (today e) u"
  let ?st0 = "modUser ?uid (dailyReset (today e)) ?st1"
  have inv: "userInv u" using assms(1,2) by (rule reachable_userInv)
  from inv assms(5) obtain tk where tk: "ctask (captchaState u) = Some tk"
    by (auto simp: userInv_def)
  have l1: "map_of (users ?st1) ?uid = Some u" using assms(2) by simp
  have eq: "handleMessage e m ?st1 = verifyCaptcha m ?uid ?u0 (body m) e ?st0"
    using l1 assms(3,4) by (simp add: handleMessage_existing handleActive_waiting)
  have l0: "map_of (users ?st0) ?uid = Some ?u0"
    using l1 by (simp add: map_of_modUser)
  have del: "tasks ?st1 = removeFirst (\<lambda>t. task_id t = task_id tk) (tasks st)
       \<and> (distinct (map task_id (tasks st)) \<longrightarrow>
            List.find (\<lambda>t. task_id t = task_id tk) (tasks ?st1) = None)"
    if "isAdmin ua" "parseIntArg a = Some (task_id tk)" "task_id tk \<in> task_id ` set (tasks st)"
    using handleDeleteTask_deletes [OF that, of ma] find_removeFirst [of task_id "tasks st"]
    by simp
  have cr: "map_of (users (handleMessage e m ?st1)) ?uid
       = Some (?u0\<lparr>balance := balance u + bonus tk,
                 completedTasksToday := completedTasksToday ?u0 @ [task_id tk],
                 captchaState := noCaptcha\<rparr>)"
    if "captchaMatches (body m) (captchaState u)"
    using verifyCaptcha_task [OF l0, of "body m" tk m e] that assms(5) tk by (simp add: eq)
  show ?thesis
    unfolding Let_def using tk del cr by auto
qed

lemma ex_task_pending_tasks: "tasks ex_task_pending = [ex_task]"
  by (simp add: ex_task_pending_def ex_task_def run_defs handleSelesai_def
        generateCaptcha_def parse_defs setTimeout_def)

theorem deleted_task_still_credited_witness:
  "reachable ex_task_pending
   \<and> map_of (users ex_task_pending) (msg_from (ex_alice ''k3xq9z'')) = Some ex_task_user
   \<and> \<not> isBlocked ex_task_user \<and> isWaiting (captchaState ex_task_user)
   \<and> ctype (captchaState ex_task_user) = Some Task
   \<and> isAdmin ex_admin_user \<and> parseIntArg (Some ''1'') = Some (task_id ex_task)
   \<and> task_id ex_task \<in> task_id ` set (tasks ex_task_pending)
   \<and> distinct (map task_id (tasks ex_task_pending))
   \<and> captchaMatches (body (ex_alice ''k3xq9z'')) (captchaState ex_task_user)
   \<and> List.find (\<lambda>t. task_id t = 1)
        (tasks (handleDeleteTask (ex_admin ''/hapustugas 1'') ex_admin_user (Some ''1'')
                  ex_task_pending)) = None
   \<and> map_of (users (handleMessage ex_env (ex_alice ''k3xq9z'')
                      (handleDeleteTask (ex_admin ''/hapustugas 1'') ex_admin_user (Some ''1'')
                         ex_task_pending))) ''alice''
       = Some ((newUser ''Mon Nov 02 2026'')\<lparr>balance := 150, completedTasksToday := [1]\<rparr>)"
proof -
  have l: "map_of (users ex_task_pending) (msg_from (ex_alice ''k3xq9z'')) = Some ex_task_user"
    by (simp add: ex_task_pending_users ex_alice_def)
  have u: "\<not> isBlocked ex_task_user" "isWaiting (captchaState ex_task_user)"
    "ctype (captchaState ex_task_user) = Some Task"
    "ctask (captchaState ex_task_user) = Some ex_task"
    "dailyReset (today ex_env) ex_task_user = ex_task_user"
    by (simp_all add: ex_task_user_def newUser_def dailyReset_def ex_env_def)
  have ad: "isAdmin ex_admin_user" by (simp add: ex_admin_user_def)
  have p: "parseIntArg (Some ''1'') = Some (task_id ex_task)"
    by (simp add: parse_defs isWhiteSpace_def ex_task_def)
  have t: "task_id ex_task \<in> task_id ` set (tasks ex_task_pending)"
    "distinct (map task_id (tasks ex_task_pending))" "task_id ex_task = 1"
    by (simp_all add: ex_task_pending_tasks ex_task_def)
  have c: "captchaMatches (body (ex_alice ''k3xq9z'')) (captchaState ex_task_user)"
    by (simp add: captchaMatches_def ex_alice_def ex_task_user_def trim_def toUpperCase_def
          upperChar_def isWhiteSpace_def)
  note th = deleted_task_still_credited [OF ex_task_pending_reachable l u(1,2,3),
      of "ex_admin ''/hapustugas 1''" ex_admin_user "Some ''1''" ex_env, unfolded Let_def]
  have f: "List.find (\<lambda>t. task_id t = 1)
        (tasks (handleDeleteTask (ex_admin ''/hapustugas 1'') ex_admin_user (Some ''1'')
                  ex_task_pending)) = None"
    using th u(4) ad p t by auto
  have r: "map_of (users (handleMessage ex_env (ex_alice ''k3xq9z'')
                      (handleDeleteTask (ex_admin ''/hapustugas 1'') ex_admin_user (Some ''1'')
                         ex_task_pending))) (msg_from (ex_alice ''k3xq9z''))
       = Some (ex_task_user\<lparr>balance := balance ex_task_user + bonus ex_task,
                 completedTasksToday := completedTasksToday ex_task_user @ [task_id ex_task],
                 captchaState := noCaptcha\<rparr>)"
    using th u(4,5) c by simp
  have r': "map_of (users (handleMessage ex_env (ex_alice ''k3xq9z'')
                      (handleDeleteTask (ex_admin ''/hapustugas 1'') ex_admin_user (Some ''1'')
                         ex_task_pending))) ''alice''
       = Some ((newUser ''Mon Nov 02 2026'')\<lparr>balance := 150, completedTasksToday := [1]\<rparr>)"
    using r by (simp add: ex_alice_def ex_task_user_def ex_task_def newUser_def noCaptcha_def)
  from ex_task_pending_reachable l u(1,2,3) ad p t(1,2) c f r' show ?thesis by simp
qed

section \<open>Answer against deadline\<close>

lemma timeoutCallback_guard:
  assumes "timeoutCallback who k s \<noteq> s"
  shows "\<exists>cu. map_of (users s) who = Some cu \<and> mode cu = AwaitingVerification
              \<and> map_option task_id (ctask (captchaState cu)) = Some k"
proof -
  from assms have "timeoutGuard who k s"
    by (auto simp: timeoutCallback_def split: if_splits)
  then show ?thesis
    by (auto simp: timeoutGuard_def mode_def split: option.splits)
qed

lemma fireTimer_absent: "t \<notin> tm_id ` set (timers s) \<Longrightarrow> fireTimer t s = s"
proof -
  assume "t \<notin> tm_id ` set (timers s)"
  then have "List.find (\<lambda>x. tm_id x = t) (timers s) = None"
    by (auto simp: find_None_iff)
  then show ?thesis by (simp add: fireTimer_def)
qed

lemma answered_cancels_timer:
  assumes "map_of (users st) (msg_from m) = Some u" and "\<not> isBlocked u"
    and "isWaiting (captchaState u)" and "timerId (captchaState u) = Some t" and "0 < t"
  shows "t \<notin> tm_id ` set (timers (handleMessage e m st))"
proof -
  have eq: "handleMessage e m st
      = verifyCaptcha m (msg_from m) (dailyReset (today e) u) (body m) e
          (modUser (msg_from m) (dailyReset (today e)) st)"
    using assms(1,2,3) by (simp add: handleMessage_existing handleActive_waiting)
  show ?thesis
    using assms(4,5) by (auto simp: eq verifyCaptcha_timers)
qed

lemma fireTimer_expires:
  assumes "map_of (users st) uid = Some u" and "isWaiting (captchaState u)"
    and "ctask (captchaState u) = Some tk"
    and "List.find (\<lambda>y. tm_id y = t) (timers st) = Some x"
    and "tm_from x = uid" and "tm_taskId x = task_id tk"
  shows "map_of (users (fireTimer t st)) uid = Some (u\<lparr>captchaState := noCaptcha\<rparr>)
       \<and> out (fireTimer t st)
           = out st @ [WriteUsers (users (fireTimer t st)), Reply uid TimeUp]"
proof -
  have g: "timeoutGuard uid (task_id tk) (clearTimeout t st)"
    using assms(1,2,3) by (simp add: timeoutGuard_def)
  have eq: "fireTimer t st
      = (let st1 = writeUsers (modUser uid (\<lambda>v. v\<lparr>captchaState := noCaptcha\<rparr>)
                                 (clearTimeout t st))
         in st1\<lparr>out := out st1 @ [Reply uid TimeUp]\<rparr>)"
    using assms(4,5,6) g by (simp add: fireTimer_def timeoutCallback_def)
  have "map_of (users (fireTimer t st)) uid = Some (u\<lparr>captchaState := noCaptcha\<rparr>)"
    using assms(1) by (simp add: eq Let_def map_of_modUser)
  moreover have "out (fireTimer t st)
           = out st @ [WriteUsers (users (fireTimer t st)), Reply uid TimeUp]"
    by (simp add: eq Let_def effs clearTimeout_def)
  ultimately show ?thesis by simp
qed

text \<open>
  C2. Take a pending task challenge of a user in a reachable state; it carries a timer id
  and the captured task.
  \<^item> The deadline callback changes the state only if the user's mode is still
    \<open>AwaitingVerification\<close> and the pending challenge's task id is the one the timer
    was created for.
  \<^item> Answer first: handling a message of the (not blocked) user clears the challenge and
    cancels the challenge's timer, which is no longer scheduled; running it afterwards
    leaves the state as it is.
  \<^item> Deadline first: when a scheduled timer of that user and task runs, the challenge is
    cleared with balance and completed tasks untouched, the records are written and the
    user is told; a message of the user handled afterwards is not taken as an answer and
    leaves the balance as it was.
\<close>

theorem challenge_resolution_exclusive:
  assumes "reachable st" and "map_of (users st) uid = Some u"
    and "isWaiting (captchaState u)" and "ctype (captchaState u) = Some Task"
  shows "\<exists>t tk. timerId (captchaState u) = Some t \<and> ctask (captchaState u) = Some tk
    \<and> (\<forall>who k s. timeoutCallback who k s \<noteq> s \<longrightarrow>
          (\<exists>cu. map_of (users s) who = Some cu \<and> mode cu = AwaitingVerification
                \<and> map_option task_id (ctask (captchaState cu)) = Some k))
    \<and> (\<forall>e m. msg_from m = uid \<and> \<not> isBlocked u \<longrightarrow>
          (\<exists>u'. map_of (users (handleMessage e m st)) uid = Some u'
                \<and> captchaState u' = noCaptcha)
          \<and> t \<notin> tm_id ` set (timers (handleMessage e m st))
          \<and> fireTimer t (handleMessage e m st) = handleMessage e m st)
    \<and> (\<forall>x. List.find (\<lambda>y. tm_id y = tm_id x) (timers st) = Some x
             \<and> tm_from x = uid \<and> tm_taskId x = task_id tk \<longrightarrow>
          map_of (users (fireTimer (tm_id x) st)) uid = Some (u\<lparr>captchaState := noCaptcha\<rparr>)
          \<and> out (fireTimer (tm_id x) st)
              = out st @ [WriteUsers (users (fireTimer (tm_id x) st)), Reply uid TimeUp]
          \<and> (\<forall>e m u'. msg_from m = uid
                \<and> map_of (users (handleMessage e m (fireTimer (tm_id x) st))) uid = Some u'
                \<longrightarrow> balance u' = balance u))"
proof -
  have inv: "userInv u" using assms(1,2) by (rule reachable_userInv)
  from inv assms(4) obtain t tk where
    t: "timerId (captchaState u) = Some t" "0 < t" and tk: "ctask (captchaState u) = Some tk"
    by (auto simp: userInv_def)
  have ng: "\<not> inGame u" using inv assms(3) by (auto simp: userInv_def)
  have ans: "(\<exists>u'. map_of (users (handleMessage e m st)) uid = Some u'
                \<and> captchaState u' = noCaptcha)
          \<and> t \<notin> tm_id ` set (timers (handleMessage e m st))
          \<and> fireTimer t (handleMessage e m st) = handleMessage e m st"
    if h: "msg_from m = uid" "\<not> isBlocked u" for e m
  proof -
    have l: "map_of (users st) (msg_from m) = Some u" using assms(2) h(1) by simp
    have eq: "handleMessage e m st
        = verifyCaptcha m (msg_from m) (dailyReset (today e) u) (body m) e
            (modUser (msg_from m) (dailyReset (today e)) st)"
      using l h(2) assms(3) by (simp add: handleMessage_existing handleActive_waiting)
    have l0: "map_of (users (modUser (msg_from m) (dailyReset (today e)) st)) (msg_from m)
                = Some (dailyReset (today e) u)"
      using l by (simp add: map_of_modUser)
    from verifyCaptcha_cleared [OF l0, of m "body m" e]
    have a: "\<exists>u'. map_of (users (handleMessage e m st)) uid = Some u'
                \<and> captchaState u' = noCaptcha"
      using h(1) by (auto simp: eq)
    note b = answered_cancels_timer [OF l h(2) assms(3) t, of e]
    from a b fireTimer_absent [OF b] show ?thesis by simp
  qed
  have expd: "map_of (users (fireTimer (tm_id x) st)) uid = Some (u\<lparr>captchaState := noCaptcha\<rparr>)
          \<and> out (fireTimer (tm_id x) st)
              = out st @ [WriteUsers (users (fireTimer (tm_id x) st)), Reply uid TimeUp]
          \<and> (\<forall>e m u'. msg_from m = uid
                \<and> map_of (users (handleMessage e m (fireTimer (tm_id x) st))) uid = Some u'
                \<longrightarrow> balance u' = balance u)"
    if h: "List.find (\<lambda>y. tm_id y = tm_id x) (timers st) = Some x"
      "tm_from x = uid" "tm_taskId x = task_id tk" for x
  proof -
    note f = fireTimer_expires [OF assms(2,3) tk h]
    have again: "balance u' = balance u"
      if g: "msg_from m = uid"
        "map_of (users (handleMessage e m (fireTimer (tm_id x) st))) uid = Some u'"
      for e m u'
    proof -
      have a: "map_of (users (fireTimer (tm_id x) st)) (msg_from m)
                 = Some (u\<lparr>captchaState := noCaptcha\<rparr>)"
        using f g(1) by simp
      have d: "map_of (users (handleMessage e m (fireTimer (tm_id x) st))) (msg_from m)
                 = Some u'"
        using g by simp
      from idle_message_balance [OF a _ _ d] ng show ?thesis by (simp add: noCaptcha_def)
    qed
    from f again show ?thesis by blast
  qed
  from t(1) tk timeoutCallback_guard ans expd show ?thesis by blast
qed

theorem challenge_resolution_exclusive_witness:
  "reachable ex_task_pending \<and> map_of (users ex_task_pending) ''alice'' = Some ex_task_user
   \<and> isWaiting (captchaState ex_task_user) \<and> ctype (captchaState ex_task_user) = Some Task
   \<and> timerId (captchaState ex_task_user) = Some 1
   \<and> ctask (captchaState ex_task_user) = Some ex_task
   \<and> msg_from (ex_alice ''k3xq9z'') = ''alice'' \<and> \<not> isBlocked ex_task_user
   \<and> fireTimer 1 (handleMessage ex_env (ex_alice ''k3xq9z'') ex_task_pending)
       = handleMessage ex_env (ex_alice ''k3xq9z'') ex_task_pending
   \<and> List.find (\<lambda>y. tm_id y = tm_id \<lparr>tm_id = 1, tm_from = ''alice'', tm_taskId = 1\<rparr>)
        (timers ex_task_pending) = Some \<lparr>tm_id = 1, tm_from = ''alice'', tm_taskId = 1\<rparr>
   \<and> task_id ex_task = 1
   \<and> map_of (users (fireTimer 1 ex_task_pending)) ''alice''
       = Some (ex_task_user\<lparr>captchaState := noCaptcha\<rparr>)"
proof -
  have l: "map_of (users ex_task_pending) ''alice'' = Some ex_task_user"
    by (simp add: ex_task_pending_users)
  have u: "isWaiting (captchaState ex_task_user)" "ctype (captchaState ex_task_user) = Some Task"
    "timerId (captchaState ex_task_user) = Some 1"
    "ctask (captchaState ex_task_user) = Some ex_task" "\<not> isBlocked ex_task_user"
    "balance ex_task_user = 0"
    by (simp_all add: ex_task_user_def newUser_def)
  have f: "List.find (\<lambda>y. tm_id y = tm_id \<lparr>tm_id = 1, tm_from = ''alice'', tm_taskId = 1\<rparr>)
        (timers ex_task_pending) = Some \<lparr>tm_id = 1, tm_from = ''alice'', tm_taskId = 1\<rparr>"
    by (simp add: ex_task_pending_timers)
  have k: "task_id ex_task = 1" by (simp add: ex_task_def)
  have a: "msg_from (ex_alice ''k3xq9z'') = ''alice''" by (simp add: ex_alice_def)
  from challenge_resolution_exclusive [OF ex_task_pending_reachable l u(1,2)]
  obtain t tk where
    t: "timerId (captchaState ex_task_user) = Some t" "ctask (captchaState ex_task_user) = Some tk"
    and ans: "\<And>e m. msg_from m = ''alice'' \<and> \<not> isBlocked ex_task_user \<Longrightarrow>
          fireTimer t (handleMessage e m ex_task_pending) = handleMessage e m ex_task_pending"
    and expd: "\<And>x. List.find (\<lambda>y. tm_id y = tm_id x) (timers ex_task_pending) = Some x
             \<and> tm_from x = ''alice'' \<and> tm_taskId x = task_id tk \<Longrightarrow>
          map_of (users (fireTimer (tm_id x) ex_task_pending)) ''alice''
            = Some (ex_task_user\<lparr>captchaState := noCaptcha\<rparr>)
          \<and> (\<forall>e m u'. msg_from m = ''alice''
                \<and> map_of (users (handleMessage e m (fireTimer (tm_id x) ex_task_pending)))
                     ''alice'' = Some u'
                \<longrightarrow> balance u' = balance ex_task_user)"
    by blast
  from t u(3,4) have tt: "t = 1" "tk = ex_task" by simp_all
  have c1: "fireTimer 1 (handleMessage ex_env (ex_alice ''k3xq9z'') ex_task_pending)
       = handleMessage ex_env (ex_alice ''k3xq9z'') ex_task_pending"
    using ans [of "ex_alice ''k3xq9z''" ex_env] a u(5) tt by simp
  note e1 = expd [of "\<lparr>tm_id = 1, tm_from = ''alice'', tm_taskId = 1\<rparr>"]
  have c2: "map_of (users (fireTimer 1 ex_task_pending)) ''alice''
       = Some (ex_task_user\<lparr>captchaState := noCaptcha\<rparr>)"
    using e1 f k tt by simp
  from ex_task_pending_reachable l u f k a c1 c2 show ?thesis by simp
qed

end
